theory Spec2Isabelle
  imports Main
begin

section \<open>JavaScript string primitives used by the cloud functions\<close>

text \<open>
  A JavaScript string is modelled as a \<open>string\<close>: each \<open>char\<close> stands for one UTF-16
  code unit below 256. The character classes are those of the regular expressions in the
  source: \<open>\d\<close>, \<open>\w\<close> and the white space that \<open>String.prototype.trim\<close> removes.
\<close>

definition is_digit :: "char \<Rightarrow> bool" where
  "is_digit c = (c \<in> set ''0123456789'')"

definition is_word :: "char \<Rightarrow> bool" where
  "is_word c =
     (c \<in> set ''abcdefghijklmnopqrstuvwxyzABCDEFGHIJKLMNOPQRSTUVWXYZ0123456789_'')"

definition is_space :: "char \<Rightarrow> bool" where
  "is_space c =
     (c \<in> set [CHR 0x09, CHR 0x0A, CHR 0x0B, CHR 0x0C, CHR 0x0D, CHR 0x20, CHR 0xA0])"

definition trim :: "string \<Rightarrow> string" where
  "trim s = rev (dropWhile is_space (rev (dropWhile is_space s)))"

text \<open>\<open>s.split(sep)\<close> for a one-character separator: never the empty array.\<close>

fun split_on :: "char \<Rightarrow> string \<Rightarrow> string list" where
  "split_on sep [] = [[]]"
| "split_on sep (c # cs) =
     (if c = sep then [] # split_on sep cs
      else (case split_on sep cs of
              [] \<Rightarrow> [[c]]
            | p # ps \<Rightarrow> (c # p) # ps))"

text \<open>\<open>parts[i] || ''\<close>: an index past the end reads \<open>undefined\<close>, which is falsy.\<close>

definition part_or_empty :: "string list \<Rightarrow> nat \<Rightarrow> string" where
  "part_or_empty parts i = (if i < length parts then parts ! i else [])"

text \<open>
  \<open>line.replace(/<[^>]*>/g, '')\<close>: a \<open><\<close> together with everything up to the next
  \<open>>\<close> is deleted; a \<open><\<close> with no \<open>>\<close> after it stays.
\<close>

function strip_tags :: "string \<Rightarrow> string" where
  "strip_tags [] = []"
| "strip_tags (c # cs) =
     (if c = CHR ''<'' \<and> CHR ''>'' \<in> set cs
      then strip_tags (tl (dropWhile (\<lambda>x. x \<noteq> CHR ''>'') cs))
      else c # strip_tags cs)"
  by pat_completeness auto
termination
proof (relation "measure length")
  show "wf (measure length)" by simp
next
  fix c :: char and cs :: string
  have "length (tl (dropWhile (\<lambda>x. x \<noteq> CHR ''>'') cs)) \<le> length cs"
    using length_dropWhile_le [of "\<lambda>x. x \<noteq> CHR ''>''" cs] by simp
  then show "(tl (dropWhile (\<lambda>x. x \<noteq> CHR ''>'') cs), c # cs) \<in> measure length"
    by simp
next
  fix c :: char and cs :: string
  show "(cs, c # cs) \<in> measure length" by simp
qed

text \<open>\<open>s.replace(/\.$/, '')\<close>: one trailing period is removed.\<close>

definition strip_trailing_dot :: "string \<Rightarrow> string" where
  "strip_trailing_dot s = (if s \<noteq> [] \<and> last s = CHR ''.'' then butlast s else s)"

section \<open>Tracking identifiers\<close>

text \<open>
  \<open>new Date()\<close> is the current instant. Its UTC calendar fields, as
  \<open>Date.prototype.toISOString\<close> reads them, are the record below.
\<close>

record date =
  utc_year :: int
  utc_month :: nat
  utc_day :: nat
  utc_hours :: nat
  utc_minutes :: nat
  utc_seconds :: nat
  utc_millis :: nat

definition digit_char :: "nat \<Rightarrow> char" where
  "digit_char d = ''0123456789'' ! (d mod 10)"

text \<open>The last \<open>k\<close> decimal digits of \<open>n\<close>, zero-padded on the left.\<close>

fun pad_digits :: "nat \<Rightarrow> nat \<Rightarrow> string" where
  "pad_digits 0 n = []"
| "pad_digits (Suc k) n = pad_digits k (n div 10) @ [digit_char n]"

text \<open>
  \<open>toISOString\<close> gives \<open>YYYY-MM-DDTHH:mm:ss.sssZ\<close> for the years 0 to 9999 and the
  expanded form with a sign and six digits for every other year.
\<close>

definition iso_year :: "int \<Rightarrow> string" where
  "iso_year y =
     (if 0 \<le> y \<and> y \<le> 9999 then pad_digits 4 (nat y)
      else (if y < 0 then ''-'' else ''+'') @ pad_digits 6 (nat \<bar>y\<bar>))"

definition toISOString :: "date \<Rightarrow> string" where
  "toISOString d =
     iso_year (utc_year d) @ ''-'' @ pad_digits 2 (utc_month d) @ ''-'' @
     pad_digits 2 (utc_day d) @ ''T'' @ pad_digits 2 (utc_hours d) @ '':'' @
     pad_digits 2 (utc_minutes d) @ '':'' @ pad_digits 2 (utc_seconds d) @ ''.'' @
     pad_digits 3 (utc_millis d) @ ''Z''"

text \<open>
  Lines 104 and 213:
  \<^verbatim>\<open>`WEB-${new Date().toISOString().replace(/[-:T.Z]/g, '').slice(0, 14)}`\<close>
\<close>

definition iso_separator :: "char \<Rightarrow> bool" where
  "iso_separator c = (c \<in> set ''-:T.Z'')"

definition strip_separators :: "string \<Rightarrow> string" where
  "strip_separators s = filter (\<lambda>c. \<not> iso_separator c) s"

definition newTrackingId :: "date \<Rightarrow> string" where
  "newTrackingId d = ''WEB-'' @ take 14 (strip_separators (toISOString d))"

text \<open>The format \<open>YYYYMMDDHHMMSS\<close> of the specification: year, month, day, hours,
  minutes and seconds in four and five times two decimal digits.\<close>

definition stamp14 :: "date \<Rightarrow> string" where
  "stamp14 d =
     pad_digits 4 (nat (utc_year d)) @ pad_digits 2 (utc_month d) @
     pad_digits 2 (utc_day d) @ pad_digits 2 (utc_hours d) @
     pad_digits 2 (utc_minutes d) @ pad_digits 2 (utc_seconds d)"

text \<open>The number a string of decimal digits denotes.\<close>

definition digits_value :: "string \<Rightarrow> nat" where
  "digits_value s = foldl (\<lambda>a c. 10 * a + (of_char c - 48)) 0 s"

section \<open>The record store, the environment and the effects\<close>

text \<open>
  A Firestore document is a finite map from field names to values; a collection maps
  document ids to documents. \<open>FTime\<close> is a resolved
  \<open>FieldValue.serverTimestamp()\<close>.
\<close>

datatype fval = FStr string | FTime nat | FNull

type_synonym doc = "string \<Rightarrow> fval option"

text \<open>\<open>ref.set(data)\<close> replaces the document; \<open>ref.set(data, {merge: true})\<close>
  overwrites the fields of \<open>data\<close> and keeps every other field (creating the document
  when there is none).\<close>

definition set_doc :: "(string \<Rightarrow> doc option) \<Rightarrow> string \<Rightarrow> doc \<Rightarrow> (string \<Rightarrow> doc option)" where
  "set_doc c k d = c(k \<mapsto> d)"

definition set_merge :: "(string \<Rightarrow> doc option) \<Rightarrow> string \<Rightarrow> doc \<Rightarrow> (string \<Rightarrow> doc option)" where
  "set_merge c k d = c(k \<mapsto> (case c k of None \<Rightarrow> d | Some old \<Rightarrow> old ++ d))"

record store_doc =
  st_storeNumber :: string
  location :: string
  st_faxNumber :: string

record mail =
  mail_from :: string
  mail_to :: string
  mail_subject :: string
  mail_text :: string
  att_filename :: string
  att_content :: string

text \<open>The side effects, in the order in which the functions perform them.
  \<open>SendMail\<close> stands for the call of \<open>transporter.sendMail\<close>, whatever its outcome.\<close>

datatype effect =
    JobSet string doc
  | JobMerge string doc
  | SendMail mail
  | LogAdd doc

record world =
  stores :: "string \<Rightarrow> store_doc option"
  faxJobs :: "string \<Rightarrow> doc option"
  fax_log :: "doc list"
  effects :: "effect list"

text \<open>
  What one invocation reads from its surroundings: the clock behind \<open>new Date()\<close>, the
  server time that resolves \<open>serverTimestamp()\<close> for the writes of the invocation, the
  configuration, and for each awaited call whether it throws (\<open>Some\<close> the message of
  the error) or succeeds (\<open>None\<close>).
\<close>

record env =
  clock :: date
  server_time :: nat
  config_smtp_from :: "string option"
  env_SMTP_FROM :: "string option"
  config_fax_gateway_email :: "string option"
  env_FAX_GATEWAY_EMAIL :: "string option"
  stores_get_error :: "string \<Rightarrow> string option"
  faxJobs_set_error :: "string \<Rightarrow> string option"
  sendMail_error :: "string option"
  fax_log_add_error :: "string option"

text \<open>JavaScript truthiness of an optional string: \<open>undefined\<close> and \<open>''\<close> are falsy.\<close>

definition truthy :: "string option \<Rightarrow> bool" where
  "truthy v = (case v of None \<Rightarrow> False | Some s \<Rightarrow> s \<noteq> [])"

definition str_of :: "string option \<Rightarrow> string" where
  "str_of v = (case v of None \<Rightarrow> [] | Some s \<Rightarrow> s)"

definition js_or :: "string option \<Rightarrow> string option \<Rightarrow> string option" where
  "js_or a b = (if truthy a then a else b)"

definition getFromEmail :: "env \<Rightarrow> string" where
  "getFromEmail e =
     str_of (js_or (js_or (config_smtp_from e) (env_SMTP_FROM e)) (Some ''handbook@company.com''))"

definition getFaxGatewayEmail :: "env \<Rightarrow> string option" where
  "getFaxGatewayEmail e = js_or (config_fax_gateway_email e) (env_FAX_GATEWAY_EMAIL e)"

text \<open>
  \<open>collection.doc(path)\<close> of the Firestore client validates the path before anything is
  read or written, and throws when the path is empty, contains \<open>//\<close>, or does not name
  a document: the path is split at \<open>/\<close>, empty segments are dropped, and below a
  collection an odd number of segments must remain. The messages are abbreviated.
\<close>

fun has_double_slash :: "string \<Rightarrow> bool" where
  "has_double_slash (a # b # cs) =
     ((a = CHR ''/'' \<and> b = CHR ''/'') \<or> has_double_slash (b # cs))"
| "has_double_slash [a] = False"
| "has_double_slash [] = False"

definition segments :: "string \<Rightarrow> string list" where
  "segments k = filter (\<lambda>s. s \<noteq> []) (split_on (CHR ''/'') k)"

definition doc_path_error :: "string \<Rightarrow> string option" where
  "doc_path_error k =
     (if k = [] then Some ''Path must be a non-empty string.''
      else if has_double_slash k then Some ''Paths must not contain //.''
      else if even (length (segments k))
      then Some ''Your path does not contain an even number of components.''
      else None)"

text \<open>A reference into \<open>faxJobs\<close> or \<open>stores\<close>: the path is validated, and a path that
  passes is refused or accepted as the environment says.\<close>

definition job_ref_error :: "env \<Rightarrow> string \<Rightarrow> string option" where
  "job_ref_error e k =
     (case doc_path_error k of Some msg \<Rightarrow> Some msg | None \<Rightarrow> faxJobs_set_error e k)"

definition store_ref_error :: "env \<Rightarrow> string \<Rightarrow> string option" where
  "store_ref_error e k =
     (case doc_path_error k of Some msg \<Rightarrow> Some msg | None \<Rightarrow> stores_get_error e k)"

section \<open>The HTTP functions \<open>sendFax\<close> and \<open>sendFaxDirect\<close>\<close>

text \<open>
  The fields of \<open>req.body\<close> are absent or strings. Both handlers run inside
  \<open>corsHandler\<close> (\<open>cors({origin: true})\<close>), which answers a preflight \<open>OPTIONS\<close> request
  itself with status 204 and an empty body and does not call the handler; every other
  request is passed on.
\<close>

record request =
  req_method :: string
  storeNumber :: "string option"
  faxNumber :: "string option"
  pdfBase64 :: "string option"
  fileName :: "string option"
  req_type :: "string option"

datatype body =
    NoContent
  | ErrorBody string
  | ErrorDetails string string
  | StoreSent string string string string
  | DirectSent string string string

record response =
  code :: nat
  body :: body

definition respond :: "nat \<Rightarrow> body \<Rightarrow> world \<Rightarrow> response \<times> world" where
  "respond c b w = (\<lparr>code = c, body = b\<rparr>, w)"

text \<open>The \<open>catch\<close> block of both functions.\<close>

definition failed :: "string \<Rightarrow> world \<Rightarrow> response \<times> world" where
  "failed msg w = respond 500 (ErrorDetails ''Failed to send fax'' msg) w"

definition pendingStoreJob :: "env \<Rightarrow> string \<Rightarrow> string \<Rightarrow> doc" where
  "pendingStoreJob e trackingId sn = map_of
     [(''trackingId'', FStr trackingId),
      (''status'', FStr ''Pending''),
      (''requesterEmail'', FStr (getFromEmail e)),
      (''storeNumber'', FStr sn),
      (''createdAt'', FTime (server_time e)),
      (''updatedAt'', FTime (server_time e))]"

definition pendingDirectJob :: "env \<Rightarrow> string \<Rightarrow> string \<Rightarrow> doc" where
  "pendingDirectJob e trackingId cleanFaxNumber = map_of
     [(''trackingId'', FStr trackingId),
      (''status'', FStr ''Pending''),
      (''faxNumber'', FStr cleanFaxNumber),
      (''requesterEmail'', FStr (getFromEmail e)),
      (''createdAt'', FTime (server_time e)),
      (''updatedAt'', FTime (server_time e))]"

definition logEntry :: "env \<Rightarrow> fval \<Rightarrow> string \<Rightarrow> string \<Rightarrow> request \<Rightarrow> doc" where
  "logEntry e sn loc fax req = map_of
     [(''storeNumber'', sn),
      (''location'', FStr loc),
      (''faxNumber'', FStr fax),
      (''fileName'', FStr (str_of (fileName req))),
      (''type'', FStr (str_of (js_or (req_type req) (Some ''unknown'')))),
      (''sentAt'', FTime (server_time e)),
      (''status'', FStr ''sent'')]"

text \<open>
  The steps after the gateway check are the same in both functions: the pending
  document is written with \<open>set\<close>, then the mail is handed to the transport, then the
  log entry is added. The tracking id is never empty and has no \<open>/\<close>, so its path is
  always valid and the write fails only as the environment says. An error thrown by any of them ends the function in its
  \<open>catch\<close> block, with the world as the earlier steps left it.
\<close>

definition createAndDispatch ::
  "env \<Rightarrow> string \<Rightarrow> doc \<Rightarrow> mail \<Rightarrow> doc \<Rightarrow> body \<Rightarrow> world \<Rightarrow> response \<times> world" where
  "createAndDispatch e trackingId job m entry ok w =
     (case faxJobs_set_error e trackingId of
        Some msg \<Rightarrow> failed msg w
      | None \<Rightarrow>
          let w1 = w\<lparr>faxJobs := set_doc (faxJobs w) trackingId job,
                     effects := effects w @ [JobSet trackingId job]\<rparr>;
              w2 = w1\<lparr>effects := effects w1 @ [SendMail m]\<rparr>
          in (case sendMail_error e of
                Some msg \<Rightarrow> failed msg w2
              | None \<Rightarrow>
                  (case fax_log_add_error e of
                     Some msg \<Rightarrow> failed msg w2
                   | None \<Rightarrow>
                       respond 200 ok
                         (w2\<lparr>fax_log := fax_log w2 @ [entry],
                             effects := effects w2 @ [LogAdd entry]\<rparr>))))"

definition storeMail :: "env \<Rightarrow> request \<Rightarrow> store_doc \<Rightarrow> string \<Rightarrow> mail" where
  "storeMail e req store trackingId =
     \<lparr>mail_from = getFromEmail e,
      mail_to = str_of (getFaxGatewayEmail e),
      mail_subject = str_of (storeNumber req) @ '' '' @ trackingId,
      mail_text = ''Handbook Acknowledgement for '' @ location store
                    @ '' ('' @ str_of (storeNumber req) @ '')'',
      att_filename = str_of (fileName req),
      att_content = str_of (pdfBase64 req)\<rparr>"

definition storeSent :: "request \<Rightarrow> store_doc \<Rightarrow> string \<Rightarrow> body" where
  "storeSent req store trackingId =
     StoreSent (''Fax sent to '' @ location store @ '' ('' @ str_of (storeNumber req) @ '')'')
       trackingId (st_storeNumber store) (location store)"

definition sendFax :: "env \<Rightarrow> request \<Rightarrow> world \<Rightarrow> response \<times> world" where
  "sendFax e req w =
     (if req_method req = ''OPTIONS'' then respond 204 NoContent w
      else if req_method req \<noteq> ''POST''
      then respond 405 (ErrorBody ''Method not allowed'') w
      else if \<not> truthy (storeNumber req) \<or> \<not> truthy (pdfBase64 req) \<or> \<not> truthy (fileName req)
      then respond 400
             (ErrorBody ''Missing required fields: storeNumber, pdfBase64, fileName'') w
      else
        (case store_ref_error e (str_of (storeNumber req)) of
           Some msg \<Rightarrow> failed msg w
         | None \<Rightarrow>
             (case stores w (str_of (storeNumber req)) of
                None \<Rightarrow>
                  respond 404
                    (ErrorBody (''Store '' @ str_of (storeNumber req) @ '' not found'')) w
              | Some store \<Rightarrow>
                  (if \<not> truthy (getFaxGatewayEmail e)
                   then respond 500 (ErrorBody ''Fax gateway email not configured'') w
                   else
                     createAndDispatch e (newTrackingId (clock e))
                       (pendingStoreJob e (newTrackingId (clock e)) (str_of (storeNumber req)))
                       (storeMail e req store (newTrackingId (clock e)))
                       (logEntry e (FStr (str_of (storeNumber req))) (location store)
                          (st_faxNumber store) req)
                       (storeSent req store (newTrackingId (clock e)))
                       w))))"

text \<open>\<open>faxNumber.replace(/\D/g, '')\<close>\<close>

definition cleanFaxNumber :: "request \<Rightarrow> string" where
  "cleanFaxNumber req = filter is_digit (str_of (faxNumber req))"

definition directMail :: "env \<Rightarrow> request \<Rightarrow> string \<Rightarrow> mail" where
  "directMail e req trackingId =
     \<lparr>mail_from = getFromEmail e,
      mail_to = str_of (getFaxGatewayEmail e),
      mail_subject = ''Fax#'' @ cleanFaxNumber req @ '' '' @ trackingId,
      mail_text = ''Handbook Acknowledgement sent to fax number '' @ cleanFaxNumber req,
      att_filename = str_of (fileName req),
      att_content = str_of (pdfBase64 req)\<rparr>"

definition directSent :: "request \<Rightarrow> string \<Rightarrow> body" where
  "directSent req trackingId =
     DirectSent (''Fax sent to '' @ cleanFaxNumber req) trackingId (cleanFaxNumber req)"

definition sendFaxDirect :: "env \<Rightarrow> request \<Rightarrow> world \<Rightarrow> response \<times> world" where
  "sendFaxDirect e req w =
     (if req_method req = ''OPTIONS'' then respond 204 NoContent w
      else if req_method req \<noteq> ''POST''
      then respond 405 (ErrorBody ''Method not allowed'') w
      else if \<not> truthy (faxNumber req) \<or> \<not> truthy (pdfBase64 req) \<or> \<not> truthy (fileName req)
      then respond 400
             (ErrorBody ''Missing required fields: faxNumber, pdfBase64, fileName'') w
      else if length (cleanFaxNumber req) < 10
      then respond 400 (ErrorBody ''Invalid fax number - must be at least 10 digits'') w
      else if \<not> truthy (getFaxGatewayEmail e)
      then respond 500 (ErrorBody ''Fax gateway email not configured'') w
      else
        createAndDispatch e (newTrackingId (clock e))
          (pendingDirectJob e (newTrackingId (clock e)) (cleanFaxNumber req))
          (directMail e req (newTrackingId (clock e)))
          (logEntry e FNull ''Direct Fax'' (cleanFaxNumber req) req)
          (directSent req (newTrackingId (clock e)))
          w)"

text \<open>
  In the effects a function adds, no mail is handed to the transport before the
  pending document of the tracking id has been written.
\<close>

fun created_before_dispatch :: "string \<Rightarrow> effect list \<Rightarrow> bool" where
  "created_before_dispatch t [] = True"
| "created_before_dispatch t (JobSet k d # es) =
     (if k = t \<and> d ''status'' = Some (FStr ''Pending'') then True
      else created_before_dispatch t es)"
| "created_before_dispatch t (SendMail m # es) = False"
| "created_before_dispatch t (JobMerge k d # es) = created_before_dispatch t es"
| "created_before_dispatch t (LogAdd d # es) = created_before_dispatch t es"

definition new_effects :: "world \<Rightarrow> world \<Rightarrow> effect list" where
  "new_effects w w' = drop (length (effects w)) (effects w')"

definition field :: "(string \<Rightarrow> doc option) \<Rightarrow> string \<Rightarrow> string \<Rightarrow> fval option" where
  "field c k f = (case c k of None \<Rightarrow> None | Some d \<Rightarrow> d f)"

definition returned_trackingId :: "response \<Rightarrow> string option" where
  "returned_trackingId r =
     (case body r of
        StoreSent msg t sn loc \<Rightarrow> Some t
      | DirectSent msg t fax \<Rightarrow> Some t
      | NoContent \<Rightarrow> None
      | ErrorBody err \<Rightarrow> None
      | ErrorDetails err details \<Rightarrow> None)"

text \<open>A request that passes every check before the tracking id is generated.\<close>

definition valid_store_request :: "env \<Rightarrow> request \<Rightarrow> world \<Rightarrow> bool" where
  "valid_store_request e req w =
     (req_method req = ''POST'' \<and> truthy (storeNumber req) \<and> truthy (pdfBase64 req) \<and>
      truthy (fileName req) \<and> store_ref_error e (str_of (storeNumber req)) = None \<and>
      stores w (str_of (storeNumber req)) \<noteq> None \<and> truthy (getFaxGatewayEmail e))"

definition valid_direct_request :: "env \<Rightarrow> request \<Rightarrow> bool" where
  "valid_direct_request e req =
     (req_method req = ''POST'' \<and> truthy (faxNumber req) \<and> truthy (pdfBase64 req) \<and>
      truthy (fileName req) \<and> 10 \<le> length (cleanFaxNumber req) \<and>
      truthy (getFaxGatewayEmail e))"

section \<open>The scheduled function \<open>monitorFaxStatus\<close>\<close>

text \<open>An unread message of the inbox: \<open>header.body.subject[0]\<close> and \<open>textPart.body\<close>.\<close>

record message =
  subject :: string
  text_body :: string

text \<open>
  \<open>/FAXDONE:([^:]+):(\w+)/\<close> tried at the start of a string. The first group is greedy
  and cannot cross a colon, so it is the whole run of non-colons after the prefix, and a
  colon must follow it; the second group is the whole run of word characters after that
  colon. Both groups are non-empty.
\<close>

definition match_here :: "string \<Rightarrow> (string \<times> string) option" where
  "match_here s =
     (if take 8 s = ''FAXDONE:'' then
        (let r = drop 8 s;
             g1 = takeWhile (\<lambda>c. c \<noteq> CHR '':'') r
         in if g1 = [] then None
            else (case dropWhile (\<lambda>c. c \<noteq> CHR '':'') r of
                    [] \<Rightarrow> None
                  | c # r2 \<Rightarrow>
                      (let g2 = takeWhile is_word r2
                       in if g2 = [] then None else Some (g1, g2))))
      else None)"

text \<open>\<open>subject.match(...)\<close> without the \<open>g\<close> flag: the leftmost position that matches.\<close>

fun subject_match :: "string \<Rightarrow> (string \<times> string) option" where
  "subject_match [] = None"
| "subject_match (c # cs) =
     (case match_here (c # cs) of
        Some g \<Rightarrow> Some g
      | None \<Rightarrow> subject_match cs)"

text \<open>\<open>body.split('\n')[0]\<close>\<close>

definition first_line :: "string \<Rightarrow> string" where
  "first_line s = (case split_on (CHR 0x0A) s of [] \<Rightarrow> [] | l # ls \<Rightarrow> l)"

record parsed =
  p_faxKey :: string
  p_status :: string
  p_requesterEmail :: string
  p_trackingId :: string

text \<open>Lines 363 to 380: what the loop body reads from one message, or \<open>None\<close> when
  the subject does not match and the loop continues with the next message.\<close>

definition parseMessage :: "message \<Rightarrow> parsed option" where
  "parseMessage m =
     (case subject_match (subject m) of
        None \<Rightarrow> None
      | Some (g1, g2) \<Rightarrow>
          (let body = trim (text_body m);
               firstLine = trim (first_line body);
               cleanLine = strip_tags firstLine;
               parts = split_on (CHR ''|'') cleanLine
           in Some \<lparr>p_faxKey = trim g1,
                    p_status = trim g2,
                    p_requesterEmail = trim (part_or_empty parts 0),
                    p_trackingId = strip_trailing_dot (trim (part_or_empty parts 1))\<rparr>))"

definition keyUpdate :: "env \<Rightarrow> parsed \<Rightarrow> doc" where
  "keyUpdate e p = map_of
     [(''faxKey'', FStr (p_faxKey p)),
      (''status'', FStr (p_status p)),
      (''requesterEmail'', FStr (p_requesterEmail p)),
      (''updatedAt'', FTime (server_time e))]"

definition trackingUpdate :: "env \<Rightarrow> parsed \<Rightarrow> doc" where
  "trackingUpdate e p = map_of
     [(''faxKey'', FStr (p_faxKey p)),
      (''trackingId'', FStr (p_trackingId p)),
      (''status'', FStr (p_status p)),
      (''requesterEmail'', FStr (p_requesterEmail p)),
      (''updatedAt'', FTime (server_time e))]"

definition merge_job :: "string \<Rightarrow> doc \<Rightarrow> world \<Rightarrow> world" where
  "merge_job k d w =
     w\<lparr>faxJobs := set_merge (faxJobs w) k d, effects := effects w @ [JobMerge k d]\<rparr>"

text \<open>
  Lines 385 to 401. An error thrown by either write is caught by the \<open>try\<close> around the
  loop body: the message is given up and what was written before stays.
\<close>

definition applyParsed :: "env \<Rightarrow> parsed \<Rightarrow> world \<Rightarrow> world" where
  "applyParsed e p w =
     (case job_ref_error e (p_faxKey p) of
        Some err \<Rightarrow> w
      | None \<Rightarrow>
          (let w1 = merge_job (p_faxKey p) (keyUpdate e p) w
           in if p_trackingId p \<noteq> [] then
                (case job_ref_error e (p_trackingId p) of
                   Some err \<Rightarrow> w1
                 | None \<Rightarrow> merge_job (p_trackingId p) (trackingUpdate e p) w1)
              else w1))"

definition processMessage :: "env \<Rightarrow> message \<Rightarrow> world \<Rightarrow> world" where
  "processMessage e m w =
     (case parseMessage m of None \<Rightarrow> w | Some p \<Rightarrow> applyParsed e p w)"

text \<open>The job collection after the writes of \<open>applyParsed\<close>, as a function of the
  collection before them.\<close>

definition written :: "env \<Rightarrow> parsed \<Rightarrow> (string \<Rightarrow> doc option) \<Rightarrow> (string \<Rightarrow> doc option)" where
  "written e p c =
     (if job_ref_error e (p_faxKey p) \<noteq> None then c
      else if p_trackingId p \<noteq> [] \<and> job_ref_error e (p_trackingId p) = None
      then set_merge (set_merge c (p_faxKey p) (keyUpdate e p)) (p_trackingId p)
             (trackingUpdate e p)
      else set_merge c (p_faxKey p) (keyUpdate e p))"

text \<open>The sweep: the loop over the messages the search returned.\<close>

definition monitorFaxStatus :: "env \<Rightarrow> message list \<Rightarrow> world \<Rightarrow> world" where
  "monitorFaxStatus e messages w = foldl (\<lambda>w' m. processMessage e m w') w messages"

text \<open>
  Modelled from the spec: the webhook handler (\<open>faxWebhook\<close>, described in DEPLOY.md) is
  not among the source files. The spec's \<open>applyWebhookUpdate(trackingId, status, faxKey?)\<close>
  merge-writes the job keyed by \<open>trackingId\<close>, setting \<open>status\<close>, \<open>faxKey\<close> if supplied
  and \<open>updatedAt\<close>, and leaves every other field untouched.
\<close>

definition applyWebhookUpdate ::
  "env \<Rightarrow> string \<Rightarrow> string \<Rightarrow> string option \<Rightarrow> world \<Rightarrow> world" where
  "applyWebhookUpdate e trackingId st faxKey w =
     (case job_ref_error e trackingId of
        Some err \<Rightarrow> w
      | None \<Rightarrow>
          merge_job trackingId
            (map_of ([(''status'', FStr st)] @
                     (case faxKey of None \<Rightarrow> [] | Some k \<Rightarrow> [(''faxKey'', FStr k)]) @
                     [(''updatedAt'', FTime (server_time e))]))
            w)"



text \<open>Every job document has a status that is a non-empty string of word characters.\<close>

definition word_status :: "doc \<Rightarrow> bool" where
  "word_status d =
     (case d ''status'' of
        Some (FStr s) \<Rightarrow> s \<noteq> [] \<and> list_all is_word s
      | Some (FTime t) \<Rightarrow> False
      | Some FNull \<Rightarrow> False
      | None \<Rightarrow> False)"

section \<open>Concrete values used to exercise the model\<close>

definition noon :: date where
  "noon = \<lparr>utc_year = 2026, utc_month = 2, utc_day = 5, utc_hours = 12,
           utc_minutes = 50, utc_seconds = 13, utc_millis = 7\<rparr>"

definition env0 :: env where
  "env0 = \<lparr>clock = noon, server_time = 1,
           config_smtp_from = None, env_SMTP_FROM = None,
           config_fax_gateway_email = Some ''gateway@fax.example'',
           env_FAX_GATEWAY_EMAIL = None,
           stores_get_error = (\<lambda>k. None), faxJobs_set_error = (\<lambda>k. None),
           sendMail_error = None, fax_log_add_error = None\<rparr>"

definition envMailDown :: env where
  "envMailDown = env0\<lparr>sendMail_error := Some ''connect ECONNREFUSED''\<rparr>"

definition world0 :: world where
  "world0 = \<lparr>stores = [''#023'' \<mapsto> \<lparr>st_storeNumber = ''#023'', location = ''Albany'',
                                      st_faxNumber = ''15419243633''\<rparr>],
             faxJobs = Map.empty, fax_log = [], effects = []\<rparr>"


definition storeReq :: request where
  "storeReq = \<lparr>req_method = ''POST'', storeNumber = Some ''#023'', faxNumber = None,
               pdfBase64 = Some ''JVBERi0='', fileName = Some ''ack.pdf'',
               req_type = Some ''signed''\<rparr>"




text \<open>A later invocation within the same clock second.\<close>

definition envLater :: env where
  "envLater = env0\<lparr>clock := noon\<lparr>utc_millis := 640\<rparr>, server_time := 2\<rparr>"

definition directReq :: request where
  "directReq = \<lparr>req_method = ''POST'', storeNumber = None, faxNumber = Some ''1 (555) 341-2222'',
                pdfBase64 = Some ''JVBERi0='', fileName = Some ''ack.pdf'',
                req_type = None\<rparr>"

definition doneMsg :: message where
  "doneMsg = \<lparr>subject = ''FAXDONE:K1:Success'',
              text_body = ''user@x.com|WEB-20260205125013.''\<rparr>"



definition bogusMsg :: message where
  "bogusMsg = \<lparr>subject = ''FAXDONE:K1:Bogus'',
               text_body = ''user@x.com|WEB-20260205125013.''\<rparr>"

definition doneParsed :: parsed where
  "doneParsed = \<lparr>p_faxKey = ''K1'', p_status = ''Success'',
                 p_requesterEmail = ''user@x.com'',
                 p_trackingId = ''WEB-20260205125013''\<rparr>"

section \<open>Properties of the tracking identifier\<close>

lemma digit_char_cases: "digit_char d \<in> set ''0123456789''"
  unfolding digit_char_def by (rule nth_mem) simp

lemma is_digit_digit_char: "is_digit (digit_char d)"
  using digit_char_cases [of d] by (simp add: is_digit_def)

lemma length_pad_digits: "length (pad_digits k n) = k"
  by (induction k arbitrary: n) simp_all

lemma pad_digits_all_digits: "list_all is_digit (pad_digits k n)"
  by (induction k arbitrary: n) (simp_all add: is_digit_digit_char)

lemma digit_not_separator: "is_digit c \<Longrightarrow> \<not> iso_separator c"
  by (auto simp: is_digit_def iso_separator_def)

lemma strip_separators_append:
  "strip_separators (a @ b) = strip_separators a @ strip_separators b"
  by (simp add: strip_separators_def)

lemma strip_separators_digits:
  "list_all is_digit s \<Longrightarrow> strip_separators s = s"
  unfolding strip_separators_def
  by (induction s) (use digit_not_separator in auto)

lemma strip_separators_pad: "strip_separators (pad_digits k n) = pad_digits k n"
  by (rule strip_separators_digits [OF pad_digits_all_digits])

lemma strip_separators_Cons:
  "strip_separators (c # s) =
     (if iso_separator c then strip_separators s else c # strip_separators s)"
  by (simp add: strip_separators_def)

lemma strip_separators_Nil: "strip_separators [] = []"
  by (simp add: strip_separators_def)

lemma stripped_toISOString:
  assumes "0 \<le> utc_year d" "utc_year d \<le> 9999"
  shows "strip_separators (toISOString d) = stamp14 d @ pad_digits 3 (utc_millis d)"
  using assms
  by (simp add: toISOString_def iso_year_def stamp14_def strip_separators_append
      strip_separators_pad strip_separators_Cons strip_separators_Nil iso_separator_def
      del: pad_digits.simps)

lemma length_stamp14: "length (stamp14 d) = 14"
  by (simp add: stamp14_def length_pad_digits del: pad_digits.simps)

lemma stamp14_all_digits: "list_all is_digit (stamp14 d)"
  by (simp add: stamp14_def pad_digits_all_digits del: pad_digits.simps)

lemma newTrackingId_stamp:
  assumes "0 \<le> utc_year d" "utc_year d \<le> 9999"
  shows "newTrackingId d = ''WEB-'' @ stamp14 d"
  using assms
  by (simp add: newTrackingId_def stripped_toISOString length_stamp14)

lemma below_ten: "[0..<10] = [0, 1, 2, 3, 4, 5, 6, 7, 8, 9 :: nat]"
  by code_simp

lemma of_char_digit_char: "of_char (digit_char d) = 48 + d mod 10"
proof -
  have "d mod 10 \<in> set [0..<10]" by simp
  then have "d mod 10 \<in> set [0, 1, 2, 3, 4, 5, 6, 7, 8, 9 :: nat]"
    by (simp only: below_ten)
  then consider "d mod 10 = 0" | "d mod 10 = 1" | "d mod 10 = 2" | "d mod 10 = 3"
    | "d mod 10 = 4" | "d mod 10 = 5" | "d mod 10 = 6" | "d mod 10 = 7"
    | "d mod 10 = 8" | "d mod 10 = 9"
    by auto
  then show ?thesis
    by cases (simp_all add: digit_char_def)
qed

lemma digits_value_snoc:
  "digits_value (s @ [c]) = 10 * digits_value s + (of_char c - 48)"
  by (simp add: digits_value_def)

lemma digits_value_pad: "digits_value (pad_digits k n) = n mod 10 ^ k"
proof (induction k arbitrary: n)
  case 0
  show ?case by (simp add: digits_value_def)
next
  case (Suc k)
  have "n mod (10 * 10 ^ k) = 10 * (n div 10 mod 10 ^ k) + n mod 10"
    by (rule mod_mult2_eq)
  then show ?case
    by (simp add: digits_value_snoc Suc.IH of_char_digit_char)
qed

lemma digits_value_pad_small: "n < 10 ^ k \<Longrightarrow> digits_value (pad_digits k n) = n"
  by (simp add: digits_value_pad)

text \<open>The fourteen digits read back as the calendar fields of the date.\<close>

lemma stamp14_decodes:
  assumes "0 \<le> utc_year d" and "utc_year d \<le> 9999" and "utc_month d < 100"
    and "utc_day d < 100" and "utc_hours d < 100" and "utc_minutes d < 100"
    and "utc_seconds d < 100"
  shows "int (digits_value (take 4 (stamp14 d))) = utc_year d \<and>
         digits_value (take 2 (drop 4 (stamp14 d))) = utc_month d \<and>
         digits_value (take 2 (drop 6 (stamp14 d))) = utc_day d \<and>
         digits_value (take 2 (drop 8 (stamp14 d))) = utc_hours d \<and>
         digits_value (take 2 (drop 10 (stamp14 d))) = utc_minutes d \<and>
         digits_value (take 2 (drop 12 (stamp14 d))) = utc_seconds d"
proof -
  have y: "nat (utc_year d) < 10 ^ 4" using assms(1,2) by simp
  show ?thesis
    using assms y
    by (simp add: stamp14_def length_pad_digits digits_value_pad_small
        del: pad_digits.simps)
qed

section \<open>The common tail of the send functions\<close>

lemma legal_ids:
  "doc_path_error ''#023'' = None" "doc_path_error ''#999'' = None"
  "doc_path_error ''K1'' = None" "doc_path_error ''WEB-20260205125013'' = None"
  by code_simp+


lemma cad_faxJobs:
  "faxJobs (snd (createAndDispatch e t job m entry ok w)) =
     (case faxJobs_set_error e t of
        Some msg \<Rightarrow> faxJobs w
      | None \<Rightarrow> (faxJobs w)(t \<mapsto> job))"
  by (simp add: createAndDispatch_def failed_def respond_def set_doc_def Let_def
      split: option.splits)

lemma cad_stores: "stores (snd (createAndDispatch e t job m entry ok w)) = stores w"
  by (simp add: createAndDispatch_def failed_def respond_def Let_def split: option.splits)

lemma cad_new_effects:
  "new_effects w (snd (createAndDispatch e t job m entry ok w)) =
     (case faxJobs_set_error e t of
        Some msg \<Rightarrow> []
      | None \<Rightarrow>
          JobSet t job # SendMail m #
            (if sendMail_error e = None \<and> fax_log_add_error e = None then [LogAdd entry]
             else []))"
  by (simp add: createAndDispatch_def failed_def respond_def new_effects_def Let_def
      split: option.splits)

lemma cad_response:
  "fst (createAndDispatch e t job m entry ok w) =
     (case faxJobs_set_error e t of
        Some msg \<Rightarrow> \<lparr>code = 500, body = ErrorDetails ''Failed to send fax'' msg\<rparr>
      | None \<Rightarrow>
          (case sendMail_error e of
             Some msg \<Rightarrow> \<lparr>code = 500, body = ErrorDetails ''Failed to send fax'' msg\<rparr>
           | None \<Rightarrow>
               (case fax_log_add_error e of
                  Some msg \<Rightarrow> \<lparr>code = 500, body = ErrorDetails ''Failed to send fax'' msg\<rparr>
                | None \<Rightarrow> \<lparr>code = 200, body = ok\<rparr>)))"
  by (simp add: createAndDispatch_def failed_def respond_def Let_def split: option.splits)

lemma cad_fax_log:
  "sendMail_error e = Some msg \<Longrightarrow>
     fax_log (snd (createAndDispatch e t job m entry ok w)) = fax_log w"
  by (simp add: createAndDispatch_def failed_def respond_def Let_def split: option.splits)

lemma snd_respond: "snd (respond c b w) = w"
  by (simp add: respond_def)

lemma snd_failed: "snd (failed msg w) = w"
  by (simp add: failed_def respond_def)

lemma returned_respond_error:
  "returned_trackingId (fst (respond c (ErrorBody x) w)) = None"
  by (simp add: respond_def returned_trackingId_def)

lemma returned_respond_empty:
  "returned_trackingId (fst (respond c NoContent w)) = None"
  by (simp add: respond_def returned_trackingId_def)

lemma returned_failed: "returned_trackingId (fst (failed msg w)) = None"
  by (simp add: failed_def respond_def returned_trackingId_def)

text \<open>When a request is valid, each function is its common tail.\<close>

lemma sendFax_valid:
  assumes "valid_store_request e req w" and "stores w (str_of (storeNumber req)) = Some store"
  shows "sendFax e req w =
           createAndDispatch e (newTrackingId (clock e))
             (pendingStoreJob e (newTrackingId (clock e)) (str_of (storeNumber req)))
             (storeMail e req store (newTrackingId (clock e)))
             (logEntry e (FStr (str_of (storeNumber req))) (location store)
                (st_faxNumber store) req)
             (storeSent req store (newTrackingId (clock e)))
             w"
  using assms by (simp add: valid_store_request_def sendFax_def)

lemma sendFaxDirect_valid:
  assumes "valid_direct_request e req"
  shows "sendFaxDirect e req w =
           createAndDispatch e (newTrackingId (clock e))
             (pendingDirectJob e (newTrackingId (clock e)) (cleanFaxNumber req))
             (directMail e req (newTrackingId (clock e)))
             (logEntry e FNull ''Direct Fax'' (cleanFaxNumber req) req)
             (directSent req (newTrackingId (clock e)))
             w"
  using assms by (simp add: valid_direct_request_def sendFaxDirect_def)

text \<open>When a request is not valid, the world is left as it was.\<close>

lemma sendFax_invalid:
  assumes "\<not> valid_store_request e req w"
  shows "snd (sendFax e req w) = w \<and> returned_trackingId (fst (sendFax e req w)) = None"
proof (cases "store_ref_error e (str_of (storeNumber req))")
  case None
  show ?thesis
  proof (cases "stores w (str_of (storeNumber req))")
    case n: None
    show ?thesis
      by (simp add: sendFax_def None n snd_respond returned_respond_error
          returned_respond_empty)
  next
    case (Some store)
    with None assms show ?thesis
      by (simp add: sendFax_def valid_store_request_def snd_respond returned_respond_error
          returned_respond_empty)
  qed
next
  case (Some msg)
  then show ?thesis
    by (simp add: sendFax_def snd_respond snd_failed returned_respond_error returned_failed
        returned_respond_empty)
qed

lemma sendFaxDirect_invalid:
  assumes "\<not> valid_direct_request e req"
  shows "snd (sendFaxDirect e req w) = w \<and>
         returned_trackingId (fst (sendFaxDirect e req w)) = None"
  using assms
  by (auto simp add: sendFaxDirect_def valid_direct_request_def snd_respond
      returned_respond_error returned_respond_empty)

lemma new_effects_same: "new_effects w w = []"
  by (simp add: new_effects_def)

lemma pendingStoreJob_status: "pendingStoreJob e t sn ''status'' = Some (FStr ''Pending'')"
  by (simp add: pendingStoreJob_def)

lemma pendingDirectJob_status: "pendingDirectJob e t n ''status'' = Some (FStr ''Pending'')"
  by (simp add: pendingDirectJob_def)

lemma cad_created_before_dispatch:
  assumes "job ''status'' = Some (FStr ''Pending'')"
  shows "created_before_dispatch t (new_effects w (snd (createAndDispatch e t job m entry ok w)))"
  using assms by (simp add: cad_new_effects split: option.splits)

lemma cad_returned:
  assumes "returned_trackingId (fst (createAndDispatch e t job m entry ok w)) = Some t'"
  shows "returned_trackingId \<lparr>code = 200, body = ok\<rparr> = Some t' \<and>
         faxJobs (snd (createAndDispatch e t job m entry ok w)) t = Some job"
  using assms
  by (simp add: cad_response cad_faxJobs returned_trackingId_def split: option.splits)

lemma sendFax_returned:
  assumes "returned_trackingId (fst (sendFax e req w)) = Some t"
  shows "t = newTrackingId (clock e) \<and>
         field (faxJobs (snd (sendFax e req w))) t ''status'' = Some (FStr ''Pending'')"
proof -
  have v: "valid_store_request e req w"
  proof (rule ccontr)
    assume "\<not> valid_store_request e req w"
    from sendFax_invalid [OF this] assms show False by simp
  qed
  then obtain store where st: "stores w (str_of (storeNumber req)) = Some store"
    by (auto simp: valid_store_request_def)
  note eq = sendFax_valid [OF v st]
  from cad_returned [OF assms [unfolded eq]]
  have a: "returned_trackingId
             \<lparr>code = 200, body = storeSent req store (newTrackingId (clock e))\<rparr> = Some t"
    and b: "faxJobs (snd (sendFax e req w)) (newTrackingId (clock e)) =
              Some (pendingStoreJob e (newTrackingId (clock e)) (str_of (storeNumber req)))"
    by (simp_all add: eq)
  from a have "t = newTrackingId (clock e)"
    by (simp add: storeSent_def returned_trackingId_def)
  with b show ?thesis
    by (simp add: field_def pendingStoreJob_status)
qed

lemma sendFaxDirect_returned:
  assumes "returned_trackingId (fst (sendFaxDirect e req w)) = Some t"
  shows "t = newTrackingId (clock e) \<and>
         field (faxJobs (snd (sendFaxDirect e req w))) t ''status'' = Some (FStr ''Pending'')"
proof -
  have v: "valid_direct_request e req"
  proof (rule ccontr)
    assume "\<not> valid_direct_request e req"
    from sendFaxDirect_invalid [OF this] assms show False by simp
  qed
  note eq = sendFaxDirect_valid [OF v]
  from cad_returned [OF assms [unfolded eq]]
  have a: "returned_trackingId
             \<lparr>code = 200, body = directSent req (newTrackingId (clock e))\<rparr> = Some t"
    and b: "faxJobs (snd (sendFaxDirect e req w)) (newTrackingId (clock e)) =
              Some (pendingDirectJob e (newTrackingId (clock e)) (cleanFaxNumber req))"
    by (simp_all add: eq)
  from a have "t = newTrackingId (clock e)"
    by (simp add: directSent_def returned_trackingId_def)
  with b show ?thesis
    by (simp add: field_def pendingDirectJob_status)
qed

lemma cad_all_succeed:
  assumes "faxJobs_set_error e t = None" and "sendMail_error e = None"
    and "fax_log_add_error e = None"
  shows "fst (createAndDispatch e t job m entry ok w) = \<lparr>code = 200, body = ok\<rparr>"
  by (simp add: cad_response assms)

lemma sendFax_succeeds:
  assumes "valid_store_request e req w"
    and "faxJobs_set_error e (newTrackingId (clock e)) = None"
    and "sendMail_error e = None" and "fax_log_add_error e = None"
  shows "code (fst (sendFax e req w)) = 200 \<and>
         returned_trackingId (fst (sendFax e req w)) = Some (newTrackingId (clock e))"
proof -
  from assms(1) obtain store where st: "stores w (str_of (storeNumber req)) = Some store"
    by (auto simp: valid_store_request_def)
  show ?thesis
    by (simp add: sendFax_valid [OF assms(1) st] cad_all_succeed [OF assms(2-4)]
        returned_trackingId_def storeSent_def)
qed

lemma sendFaxDirect_succeeds:
  assumes "valid_direct_request e req"
    and "faxJobs_set_error e (newTrackingId (clock e)) = None"
    and "sendMail_error e = None" and "fax_log_add_error e = None"
  shows "code (fst (sendFaxDirect e req w)) = 200 \<and>
         returned_trackingId (fst (sendFaxDirect e req w)) = Some (newTrackingId (clock e))"
  by (simp add: sendFaxDirect_valid [OF assms(1)] cad_all_succeed [OF assms(2-4)]
      returned_trackingId_def directSent_def)

text \<open>
  Claim C4. A valid store or direct send request none of whose writes and dispatch fails
  is answered with status 200 and a tracking id, and every tracking id that \<open>sendFax\<close> or
  \<open>sendFaxDirect\<close> returns is \<open>WEB-\<close> followed by the fourteen digits \<open>YYYYMMDDHHMMSS\<close>
  of the current UTC instant. The format has a four-digit year: the clock is taken to
  show a year from 0 to 9999, the years \<open>toISOString\<close> writes with four digits and no
  sign.
\<close>

theorem returned_trackingId_format:
  assumes "0 \<le> utc_year (clock e)" and "utc_year (clock e) \<le> 9999"
  shows "(valid_store_request e req w \<and>
          faxJobs_set_error e (newTrackingId (clock e)) = None \<and>
          sendMail_error e = None \<and> fax_log_add_error e = None \<longrightarrow>
            code (fst (sendFax e req w)) = 200 \<and>
            returned_trackingId (fst (sendFax e req w))
              = Some (''WEB-'' @ stamp14 (clock e))) \<and>
         (valid_direct_request e req \<and>
          faxJobs_set_error e (newTrackingId (clock e)) = None \<and>
          sendMail_error e = None \<and> fax_log_add_error e = None \<longrightarrow>
            code (fst (sendFaxDirect e req w)) = 200 \<and>
            returned_trackingId (fst (sendFaxDirect e req w))
              = Some (''WEB-'' @ stamp14 (clock e))) \<and>
         (returned_trackingId (fst (sendFax e req w)) = Some t \<or>
          returned_trackingId (fst (sendFaxDirect e req w)) = Some t \<longrightarrow>
            t = ''WEB-'' @ stamp14 (clock e)) \<and>
         length (stamp14 (clock e)) = 14 \<and> list_all is_digit (stamp14 (clock e))"
proof (intro conjI impI)
  note id = newTrackingId_stamp [OF assms]
  {
    assume "valid_store_request e req w \<and>
          faxJobs_set_error e (newTrackingId (clock e)) = None \<and>
          sendMail_error e = None \<and> fax_log_add_error e = None"
    then have "code (fst (sendFax e req w)) = 200 \<and>
         returned_trackingId (fst (sendFax e req w)) = Some (newTrackingId (clock e))"
      by (elim conjE) (rule sendFax_succeeds)
    then show "code (fst (sendFax e req w)) = 200"
      and "returned_trackingId (fst (sendFax e req w)) = Some (''WEB-'' @ stamp14 (clock e))"
      by (simp_all add: id)
  }
  {
    assume "valid_direct_request e req \<and>
          faxJobs_set_error e (newTrackingId (clock e)) = None \<and>
          sendMail_error e = None \<and> fax_log_add_error e = None"
    then have "code (fst (sendFaxDirect e req w)) = 200 \<and>
         returned_trackingId (fst (sendFaxDirect e req w)) = Some (newTrackingId (clock e))"
      by (elim conjE) (rule sendFaxDirect_succeeds)
    then show "code (fst (sendFaxDirect e req w)) = 200"
      and "returned_trackingId (fst (sendFaxDirect e req w))
             = Some (''WEB-'' @ stamp14 (clock e))"
      by (simp_all add: id)
  }
  {
    assume "returned_trackingId (fst (sendFax e req w)) = Some t \<or>
          returned_trackingId (fst (sendFaxDirect e req w)) = Some t"
    then have "t = newTrackingId (clock e)"
      using sendFax_returned sendFaxDirect_returned by blast
    then show "t = ''WEB-'' @ stamp14 (clock e)" by (simp add: id)
  }
  show "length (stamp14 (clock e)) = 14" by (rule length_stamp14)
  show "list_all is_digit (stamp14 (clock e))" by (rule stamp14_all_digits)
qed

lemma env0_year: "0 \<le> utc_year (clock env0) \<and> utc_year (clock env0) \<le> 9999"
  by (simp add: env0_def noon_def)

lemma env0_no_failure:
  "faxJobs_set_error env0 (newTrackingId (clock env0)) = None \<and>
   sendMail_error env0 = None \<and> fax_log_add_error env0 = None"
  by (simp add: env0_def)

lemma storeReq_valid:
  "valid_store_request env0 storeReq world0 \<and>
   stores world0 (str_of (storeNumber storeReq)) =
     Some \<lparr>st_storeNumber = ''#023'', location = ''Albany'', st_faxNumber = ''15419243633''\<rparr> \<and>
   faxJobs_set_error env0 (newTrackingId (clock env0)) = None"
  by (simp add: valid_store_request_def env0_def storeReq_def world0_def truthy_def str_of_def
      getFaxGatewayEmail_def js_or_def store_ref_error_def legal_ids)

lemma directReq_valid: "valid_direct_request env0 directReq"
  by (simp add: valid_direct_request_def env0_def directReq_def truthy_def str_of_def
      getFaxGatewayEmail_def js_or_def cleanFaxNumber_def is_digit_def)

lemma env0_stamp: "''WEB-'' @ stamp14 (clock env0) = ''WEB-20260205125013''"
  by code_simp

theorem returned_trackingId_format_witness:
  "valid_store_request env0 storeReq world0 \<and>
   code (fst (sendFax env0 storeReq world0)) = 200 \<and>
   returned_trackingId (fst (sendFax env0 storeReq world0)) = Some ''WEB-20260205125013'' \<and>
   valid_direct_request env0 directReq \<and>
   code (fst (sendFaxDirect env0 directReq world0)) = 200 \<and>
   returned_trackingId (fst (sendFaxDirect env0 directReq world0))
     = Some ''WEB-20260205125013'' \<and>
   length (stamp14 (clock env0)) = 14 \<and> list_all is_digit (stamp14 (clock env0))"
proof -
  have y: "0 \<le> utc_year (clock env0)" "utc_year (clock env0) \<le> 9999"
    using env0_year by simp_all
  have s: "valid_store_request env0 storeReq world0 \<and>
          faxJobs_set_error env0 (newTrackingId (clock env0)) = None \<and>
          sendMail_error env0 = None \<and> fax_log_add_error env0 = None"
    using storeReq_valid env0_no_failure by simp
  have d: "valid_direct_request env0 directReq \<and>
          faxJobs_set_error env0 (newTrackingId (clock env0)) = None \<and>
          sendMail_error env0 = None \<and> fax_log_add_error env0 = None"
    using directReq_valid env0_no_failure by simp
  note a = returned_trackingId_format
             [OF y, of storeReq world0, THEN conjunct1, THEN mp, OF s, unfolded env0_stamp]
  note b = returned_trackingId_format
             [OF y, of directReq world0, THEN conjunct2, THEN conjunct1, THEN mp, OF d,
              unfolded env0_stamp]
  note c = returned_trackingId_format
             [OF y, of storeReq world0, THEN conjunct2, THEN conjunct2, THEN conjunct2]
  from a b c s d show ?thesis
    by (elim conjE) (intro conjI; assumption)
qed

lemma storeReq_returns:
  "returned_trackingId (fst (sendFax env0 storeReq world0)) = Some ''WEB-20260205125013''"
  using sendFax_succeeds [of env0 storeReq world0] storeReq_valid env0_no_failure env0_stamp
    newTrackingId_stamp [of "clock env0"] env0_year
  by simp

lemma directReq_returns:
  "returned_trackingId (fst (sendFaxDirect env0 directReq world0)) = Some ''WEB-20260205125013''"
  using sendFaxDirect_succeeds [of env0 directReq world0] directReq_valid env0_no_failure
    env0_stamp newTrackingId_stamp [of "clock env0"] env0_year
  by simp

section \<open>Creation, dispatch and their failures\<close>

lemma sendFax_created_before_dispatch:
  "created_before_dispatch (newTrackingId (clock e)) (new_effects w (snd (sendFax e req w)))"
proof (cases "valid_store_request e req w")
  case True
  then obtain store where st: "stores w (str_of (storeNumber req)) = Some store"
    by (auto simp: valid_store_request_def)
  show ?thesis
    unfolding sendFax_valid [OF True st]
    by (rule cad_created_before_dispatch) (rule pendingStoreJob_status)
next
  case False
  from sendFax_invalid [OF False] show ?thesis
    by (simp add: new_effects_same)
qed

lemma sendFaxDirect_created_before_dispatch:
  "created_before_dispatch (newTrackingId (clock e))
     (new_effects w (snd (sendFaxDirect e req w)))"
proof (cases "valid_direct_request e req")
  case True
  show ?thesis
    unfolding sendFaxDirect_valid [OF True]
    by (rule cad_created_before_dispatch) (rule pendingDirectJob_status)
next
  case False
  from sendFaxDirect_invalid [OF False] show ?thesis
    by (simp add: new_effects_same)
qed

lemma sendFax_effects:
  assumes "valid_store_request e req w"
    and "stores w (str_of (storeNumber req)) = Some store"
    and "faxJobs_set_error e (newTrackingId (clock e)) = None"
  shows "take 2 (new_effects w (snd (sendFax e req w))) =
           [JobSet (newTrackingId (clock e))
              (pendingStoreJob e (newTrackingId (clock e)) (str_of (storeNumber req))),
            SendMail (storeMail e req store (newTrackingId (clock e)))]"
  by (simp add: sendFax_valid [OF assms(1,2)] cad_new_effects assms(3))

lemma sendFaxDirect_effects:
  assumes "valid_direct_request e req"
    and "faxJobs_set_error e (newTrackingId (clock e)) = None"
  shows "take 2 (new_effects w (snd (sendFaxDirect e req w))) =
           [JobSet (newTrackingId (clock e))
              (pendingDirectJob e (newTrackingId (clock e)) (cleanFaxNumber req)),
            SendMail (directMail e req (newTrackingId (clock e)))]"
  by (simp add: sendFaxDirect_valid [OF assms(1)] cad_new_effects assms(2))

text \<open>
  Claim C3. In both send functions the pending document of the tracking id is written
  before the mail is handed to the transport: the effects of any call never show a
  dispatch that is not preceded by that write; a valid request whose write succeeds
  performs the write first and the dispatch second; and a tracking id that is returned
  to the client is the key of a document whose status is Pending.
\<close>

theorem pending_job_created_before_dispatch:
  "created_before_dispatch (newTrackingId (clock e)) (new_effects w (snd (sendFax e req w))) \<and>
   created_before_dispatch (newTrackingId (clock e))
     (new_effects w (snd (sendFaxDirect e req w))) \<and>
   (valid_store_request e req w \<and> stores w (str_of (storeNumber req)) = Some store \<and>
    faxJobs_set_error e (newTrackingId (clock e)) = None \<longrightarrow>
      take 2 (new_effects w (snd (sendFax e req w))) =
        [JobSet (newTrackingId (clock e))
           (pendingStoreJob e (newTrackingId (clock e)) (str_of (storeNumber req))),
         SendMail (storeMail e req store (newTrackingId (clock e)))]) \<and>
   (valid_direct_request e req \<and> faxJobs_set_error e (newTrackingId (clock e)) = None \<longrightarrow>
      take 2 (new_effects w (snd (sendFaxDirect e req w))) =
        [JobSet (newTrackingId (clock e))
           (pendingDirectJob e (newTrackingId (clock e)) (cleanFaxNumber req)),
         SendMail (directMail e req (newTrackingId (clock e)))]) \<and>
   (returned_trackingId (fst (sendFax e req w)) = Some t \<longrightarrow>
      field (faxJobs (snd (sendFax e req w))) t ''status'' = Some (FStr ''Pending'')) \<and>
   (returned_trackingId (fst (sendFaxDirect e req w)) = Some t \<longrightarrow>
      field (faxJobs (snd (sendFaxDirect e req w))) t ''status'' = Some (FStr ''Pending''))"
proof (intro conjI impI)
  show "created_before_dispatch (newTrackingId (clock e))
          (new_effects w (snd (sendFax e req w)))"
    by (rule sendFax_created_before_dispatch)
  show "created_before_dispatch (newTrackingId (clock e))
          (new_effects w (snd (sendFaxDirect e req w)))"
    by (rule sendFaxDirect_created_before_dispatch)
next
  assume "valid_store_request e req w \<and> stores w (str_of (storeNumber req)) = Some store \<and>
    faxJobs_set_error e (newTrackingId (clock e)) = None"
  then show "take 2 (new_effects w (snd (sendFax e req w))) =
        [JobSet (newTrackingId (clock e))
           (pendingStoreJob e (newTrackingId (clock e)) (str_of (storeNumber req))),
         SendMail (storeMail e req store (newTrackingId (clock e)))]"
    by (elim conjE) (rule sendFax_effects)
next
  assume "valid_direct_request e req \<and> faxJobs_set_error e (newTrackingId (clock e)) = None"
  then show "take 2 (new_effects w (snd (sendFaxDirect e req w))) =
        [JobSet (newTrackingId (clock e))
           (pendingDirectJob e (newTrackingId (clock e)) (cleanFaxNumber req)),
         SendMail (directMail e req (newTrackingId (clock e)))]"
    by (elim conjE) (rule sendFaxDirect_effects)
next
  assume "returned_trackingId (fst (sendFax e req w)) = Some t"
  from sendFax_returned [OF this]
  show "field (faxJobs (snd (sendFax e req w))) t ''status'' = Some (FStr ''Pending'')" ..
next
  assume "returned_trackingId (fst (sendFaxDirect e req w)) = Some t"
  from sendFaxDirect_returned [OF this]
  show "field (faxJobs (snd (sendFaxDirect e req w))) t ''status'' = Some (FStr ''Pending'')" ..
qed

theorem pending_job_created_before_dispatch_witness:
  "valid_store_request env0 storeReq world0 \<and>
   take 2 (new_effects world0 (snd (sendFax env0 storeReq world0))) =
     [JobSet (newTrackingId (clock env0))
        (pendingStoreJob env0 (newTrackingId (clock env0)) (str_of (storeNumber storeReq))),
      SendMail (storeMail env0 storeReq
        \<lparr>st_storeNumber = ''#023'', location = ''Albany'', st_faxNumber = ''15419243633''\<rparr>
        (newTrackingId (clock env0)))] \<and>
   valid_direct_request env0 directReq \<and>
   take 2 (new_effects world0 (snd (sendFaxDirect env0 directReq world0))) =
     [JobSet (newTrackingId (clock env0))
        (pendingDirectJob env0 (newTrackingId (clock env0)) (cleanFaxNumber directReq)),
      SendMail (directMail env0 directReq (newTrackingId (clock env0)))] \<and>
   returned_trackingId (fst (sendFax env0 storeReq world0)) = Some ''WEB-20260205125013'' \<and>
   field (faxJobs (snd (sendFax env0 storeReq world0))) ''WEB-20260205125013'' ''status''
     = Some (FStr ''Pending'') \<and>
   returned_trackingId (fst (sendFaxDirect env0 directReq world0))
     = Some ''WEB-20260205125013'' \<and>
   field (faxJobs (snd (sendFaxDirect env0 directReq world0))) ''WEB-20260205125013''
     ''status'' = Some (FStr ''Pending'')"
proof -
  note c3 = pending_job_created_before_dispatch
  have a: "take 2 (new_effects world0 (snd (sendFax env0 storeReq world0))) =
     [JobSet (newTrackingId (clock env0))
        (pendingStoreJob env0 (newTrackingId (clock env0)) (str_of (storeNumber storeReq))),
      SendMail (storeMail env0 storeReq
        \<lparr>st_storeNumber = ''#023'', location = ''Albany'', st_faxNumber = ''15419243633''\<rparr>
        (newTrackingId (clock env0)))]"
    using c3 [of env0 world0 storeReq] storeReq_valid by simp
  have b: "take 2 (new_effects world0 (snd (sendFaxDirect env0 directReq world0))) =
     [JobSet (newTrackingId (clock env0))
        (pendingDirectJob env0 (newTrackingId (clock env0)) (cleanFaxNumber directReq)),
      SendMail (directMail env0 directReq (newTrackingId (clock env0)))]"
    using c3 [of env0 world0 directReq] storeReq_valid directReq_valid by simp
  have c: "field (faxJobs (snd (sendFax env0 storeReq world0))) ''WEB-20260205125013''
     ''status'' = Some (FStr ''Pending'')"
    using c3 [of env0 world0 storeReq _ "''WEB-20260205125013''"] storeReq_returns by simp
  have d: "field (faxJobs (snd (sendFaxDirect env0 directReq world0))) ''WEB-20260205125013''
     ''status'' = Some (FStr ''Pending'')"
    using c3 [of env0 world0 directReq _ "''WEB-20260205125013''"] directReq_returns by simp
  from a b c d storeReq_valid directReq_valid storeReq_returns directReq_returns
  show ?thesis by (intro conjI) simp_all
qed

text \<open>
  Claim C6. When the transport rejects the mail after the pending document was written,
  the caller gets status 500 with the body \<open>{error: 'Failed to send fax', details}\<close>, the
  job collection is the old one with the pending document added, that document still has
  status Pending, and nothing is added to the log.
\<close>

theorem dispatch_failure_leaves_pending_job:
  assumes "sendMail_error e = Some msg"
    and "faxJobs_set_error e (newTrackingId (clock e)) = None"
  shows
   "(valid_store_request e req w \<longrightarrow>
       fst (sendFax e req w) = \<lparr>code = 500, body = ErrorDetails ''Failed to send fax'' msg\<rparr> \<and>
       faxJobs (snd (sendFax e req w)) =
         (faxJobs w)(newTrackingId (clock e) \<mapsto>
            pendingStoreJob e (newTrackingId (clock e)) (str_of (storeNumber req))) \<and>
       field (faxJobs (snd (sendFax e req w))) (newTrackingId (clock e)) ''status''
         = Some (FStr ''Pending'') \<and>
       fax_log (snd (sendFax e req w)) = fax_log w) \<and>
    (valid_direct_request e req \<longrightarrow>
       fst (sendFaxDirect e req w)
         = \<lparr>code = 500, body = ErrorDetails ''Failed to send fax'' msg\<rparr> \<and>
       faxJobs (snd (sendFaxDirect e req w)) =
         (faxJobs w)(newTrackingId (clock e) \<mapsto>
            pendingDirectJob e (newTrackingId (clock e)) (cleanFaxNumber req)) \<and>
       field (faxJobs (snd (sendFaxDirect e req w))) (newTrackingId (clock e)) ''status''
         = Some (FStr ''Pending'') \<and>
       fax_log (snd (sendFaxDirect e req w)) = fax_log w)"
proof (intro conjI impI)
  assume v: "valid_store_request e req w"
  then obtain store where st: "stores w (str_of (storeNumber req)) = Some store"
    by (auto simp: valid_store_request_def)
  note eq = sendFax_valid [OF v st]
  show "fst (sendFax e req w) = \<lparr>code = 500, body = ErrorDetails ''Failed to send fax'' msg\<rparr>"
    by (simp add: eq cad_response assms)
  show "faxJobs (snd (sendFax e req w)) =
         (faxJobs w)(newTrackingId (clock e) \<mapsto>
            pendingStoreJob e (newTrackingId (clock e)) (str_of (storeNumber req)))"
    by (simp add: eq cad_faxJobs assms)
  show "field (faxJobs (snd (sendFax e req w))) (newTrackingId (clock e)) ''status''
         = Some (FStr ''Pending'')"
    by (simp add: eq cad_faxJobs assms field_def pendingStoreJob_status)
  show "fax_log (snd (sendFax e req w)) = fax_log w"
    by (simp add: eq cad_fax_log [OF assms(1)])
next
  assume v: "valid_direct_request e req"
  note eq = sendFaxDirect_valid [OF v]
  show "fst (sendFaxDirect e req w)
         = \<lparr>code = 500, body = ErrorDetails ''Failed to send fax'' msg\<rparr>"
    by (simp add: eq cad_response assms)
  show "faxJobs (snd (sendFaxDirect e req w)) =
         (faxJobs w)(newTrackingId (clock e) \<mapsto>
            pendingDirectJob e (newTrackingId (clock e)) (cleanFaxNumber req))"
    by (simp add: eq cad_faxJobs assms)
  show "field (faxJobs (snd (sendFaxDirect e req w))) (newTrackingId (clock e)) ''status''
         = Some (FStr ''Pending'')"
    by (simp add: eq cad_faxJobs assms field_def pendingDirectJob_status)
  show "fax_log (snd (sendFaxDirect e req w)) = fax_log w"
    by (simp add: eq cad_fax_log [OF assms(1)])
qed

lemma envMailDown_facts:
  "sendMail_error envMailDown = Some ''connect ECONNREFUSED'' \<and>
   faxJobs_set_error envMailDown (newTrackingId (clock envMailDown)) = None \<and>
   valid_store_request envMailDown storeReq world0 \<and>
   valid_direct_request envMailDown directReq"
  by (simp add: envMailDown_def valid_store_request_def valid_direct_request_def env0_def
      storeReq_def directReq_def world0_def truthy_def str_of_def getFaxGatewayEmail_def
      js_or_def cleanFaxNumber_def is_digit_def store_ref_error_def legal_ids)

theorem dispatch_failure_leaves_pending_job_witness:
  "sendMail_error envMailDown = Some ''connect ECONNREFUSED'' \<and>
   valid_store_request envMailDown storeReq world0 \<and>
   fst (sendFax envMailDown storeReq world0)
     = \<lparr>code = 500, body = ErrorDetails ''Failed to send fax'' ''connect ECONNREFUSED''\<rparr> \<and>
   field (faxJobs (snd (sendFax envMailDown storeReq world0)))
     (newTrackingId (clock envMailDown)) ''status'' = Some (FStr ''Pending'') \<and>
   fax_log (snd (sendFax envMailDown storeReq world0)) = fax_log world0 \<and>
   valid_direct_request envMailDown directReq \<and>
   fst (sendFaxDirect envMailDown directReq world0)
     = \<lparr>code = 500, body = ErrorDetails ''Failed to send fax'' ''connect ECONNREFUSED''\<rparr> \<and>
   field (faxJobs (snd (sendFaxDirect envMailDown directReq world0)))
     (newTrackingId (clock envMailDown)) ''status'' = Some (FStr ''Pending'')"
proof -
  have m: "sendMail_error envMailDown = Some ''connect ECONNREFUSED''"
    and j: "faxJobs_set_error envMailDown (newTrackingId (clock envMailDown)) = None"
    using envMailDown_facts by simp_all
  have s: "valid_store_request envMailDown storeReq world0"
    and d: "valid_direct_request envMailDown directReq"
    using envMailDown_facts by simp_all
  note a = dispatch_failure_leaves_pending_job
             [OF m j, of storeReq world0, THEN conjunct1, THEN mp, OF s]
  note b = dispatch_failure_leaves_pending_job
             [OF m j, of directReq world0, THEN conjunct2, THEN mp, OF d]
  from a b m s d show ?thesis
    by (elim conjE) (intro conjI; assumption)
qed

section \<open>Requests that fail before creation, and colliding tracking ids\<close>





lemma sendFax_stores: "stores (snd (sendFax e req w)) = stores w"
proof (cases "valid_store_request e req w")
  case True
  then obtain store where st: "stores w (str_of (storeNumber req)) = Some store"
    by (auto simp: valid_store_request_def)
  show ?thesis by (simp add: sendFax_valid [OF True st] cad_stores)
next
  case False
  from sendFax_invalid [OF False] show ?thesis by simp
qed

lemma sendFaxDirect_stores: "stores (snd (sendFaxDirect e req w)) = stores w"
proof (cases "valid_direct_request e req")
  case True
  show ?thesis by (simp add: sendFaxDirect_valid [OF True] cad_stores)
next
  case False
  from sendFaxDirect_invalid [OF False] show ?thesis by simp
qed

lemma sendFax_creates:
  assumes "valid_store_request e req w"
    and "faxJobs_set_error e (newTrackingId (clock e)) = None"
  shows "faxJobs (snd (sendFax e req w)) =
           (faxJobs w)(newTrackingId (clock e) \<mapsto>
              pendingStoreJob e (newTrackingId (clock e)) (str_of (storeNumber req)))"
proof -
  from assms(1) obtain store where st: "stores w (str_of (storeNumber req)) = Some store"
    by (auto simp: valid_store_request_def)
  show ?thesis by (simp add: sendFax_valid [OF assms(1) st] cad_faxJobs assms(2))
qed

lemma sendFaxDirect_creates:
  assumes "valid_direct_request e req"
    and "faxJobs_set_error e (newTrackingId (clock e)) = None"
  shows "faxJobs (snd (sendFaxDirect e req w)) =
           (faxJobs w)(newTrackingId (clock e) \<mapsto>
              pendingDirectJob e (newTrackingId (clock e)) (cleanFaxNumber req))"
  by (simp add: sendFaxDirect_valid [OF assms(1)] cad_faxJobs assms(2))

lemma valid_store_request_stores:
  "stores w' = stores w \<Longrightarrow> valid_store_request e req w' = valid_store_request e req w"
  by (simp add: valid_store_request_def)

text \<open>
  Claim C10. The creation write is \<open>set\<close> without \<open>merge\<close>. When a store send and a direct
  send get the same tracking id, the later of the two leaves under that id exactly its
  own pending document: after store-then-direct the document has no \<open>storeNumber\<close>, and
  after direct-then-store it has no \<open>faxNumber\<close>, although the first send had written it.
\<close>

theorem colliding_creation_replaces_document:
  assumes "valid_store_request e1 r1 w" and "valid_direct_request e2 r2"
    and "newTrackingId (clock e1) = t" and "newTrackingId (clock e2) = t"
    and "faxJobs_set_error e1 t = None" and "faxJobs_set_error e2 t = None"
  shows "field (faxJobs (snd (sendFax e1 r1 w))) t ''storeNumber''
           = Some (FStr (str_of (storeNumber r1))) \<and>
         faxJobs (snd (sendFaxDirect e2 r2 (snd (sendFax e1 r1 w)))) t
           = Some (pendingDirectJob e2 t (cleanFaxNumber r2)) \<and>
         field (faxJobs (snd (sendFaxDirect e2 r2 (snd (sendFax e1 r1 w))))) t ''storeNumber''
           = None \<and>
         field (faxJobs (snd (sendFaxDirect e2 r2 w))) t ''faxNumber''
           = Some (FStr (cleanFaxNumber r2)) \<and>
         faxJobs (snd (sendFax e1 r1 (snd (sendFaxDirect e2 r2 w)))) t
           = Some (pendingStoreJob e1 t (str_of (storeNumber r1))) \<and>
         field (faxJobs (snd (sendFax e1 r1 (snd (sendFaxDirect e2 r2 w))))) t ''faxNumber''
           = None"
proof -
  have j1: "faxJobs_set_error e1 (newTrackingId (clock e1)) = None"
    and j2: "faxJobs_set_error e2 (newTrackingId (clock e2)) = None"
    using assms by simp_all
  have v1': "valid_store_request e1 r1 (snd (sendFaxDirect e2 r2 w))"
    using assms(1) valid_store_request_stores [OF sendFaxDirect_stores] by simp
  have a: "faxJobs (snd (sendFax e1 r1 w)) t
             = Some (pendingStoreJob e1 t (str_of (storeNumber r1)))"
    using sendFax_creates [OF assms(1) j1] assms(3) by simp
  have b: "faxJobs (snd (sendFaxDirect e2 r2 (snd (sendFax e1 r1 w)))) t
             = Some (pendingDirectJob e2 t (cleanFaxNumber r2))"
    using sendFaxDirect_creates [OF assms(2) j2] assms(4) by simp
  have c: "faxJobs (snd (sendFaxDirect e2 r2 w)) t
             = Some (pendingDirectJob e2 t (cleanFaxNumber r2))"
    using sendFaxDirect_creates [OF assms(2) j2] assms(4) by simp
  have d: "faxJobs (snd (sendFax e1 r1 (snd (sendFaxDirect e2 r2 w)))) t
             = Some (pendingStoreJob e1 t (str_of (storeNumber r1)))"
    using sendFax_creates [OF v1' j1] assms(3) by simp
  show ?thesis
    by (simp add: field_def a b c d pendingStoreJob_def pendingDirectJob_def)
qed

lemma collision_facts:
  "valid_store_request env0 storeReq world0 \<and> valid_direct_request envLater directReq \<and>
   newTrackingId (clock env0) = ''WEB-20260205125013'' \<and>
   newTrackingId (clock envLater) = ''WEB-20260205125013'' \<and>
   faxJobs_set_error env0 ''WEB-20260205125013'' = None \<and>
   faxJobs_set_error envLater ''WEB-20260205125013'' = None"
  by code_simp

theorem colliding_creation_replaces_document_witness:
  "valid_store_request env0 storeReq world0 \<and> valid_direct_request envLater directReq \<and>
   newTrackingId (clock env0) = newTrackingId (clock envLater) \<and>
   field (faxJobs (snd (sendFax env0 storeReq world0))) ''WEB-20260205125013'' ''storeNumber''
     = Some (FStr ''#023'') \<and>
   field (faxJobs (snd (sendFaxDirect envLater directReq (snd (sendFax env0 storeReq world0)))))
     ''WEB-20260205125013'' ''storeNumber'' = None \<and>
   field (faxJobs (snd (sendFaxDirect envLater directReq world0)))
     ''WEB-20260205125013'' ''faxNumber'' = Some (FStr ''15553412222'') \<and>
   field (faxJobs (snd (sendFax env0 storeReq (snd (sendFaxDirect envLater directReq world0)))))
     ''WEB-20260205125013'' ''faxNumber'' = None"
proof -
  have f: "valid_store_request env0 storeReq world0" "valid_direct_request envLater directReq"
    "newTrackingId (clock env0) = ''WEB-20260205125013''"
    "newTrackingId (clock envLater) = ''WEB-20260205125013''"
    "faxJobs_set_error env0 ''WEB-20260205125013'' = None"
    "faxJobs_set_error envLater ''WEB-20260205125013'' = None"
    using collision_facts by simp_all
  have s: "str_of (storeNumber storeReq) = ''#023''"
    by (simp add: storeReq_def str_of_def)
  have n: "cleanFaxNumber directReq = ''15553412222''"
    by (simp add: directReq_def cleanFaxNumber_def str_of_def is_digit_def)
  from colliding_creation_replaces_document [OF f] f s n
  show ?thesis by simp
qed

section \<open>Parsing a completion message\<close>

lemma word_not_space: "is_word c \<Longrightarrow> \<not> is_space c"
  by (auto simp: is_word_def is_space_def)

lemma dropWhile_space_words: "list_all is_word s \<Longrightarrow> dropWhile is_space s = s"
  by (cases s) (simp_all add: word_not_space)

lemma trim_words: "list_all is_word s \<Longrightarrow> trim s = s"
proof -
  assume w: "list_all is_word s"
  then have "list_all is_word (rev s)" by (simp add: list_all_iff)
  then show "trim s = s"
    by (simp add: trim_def dropWhile_space_words w)
qed

lemma match_here_groups:
  assumes "match_here s = Some (g1, g2)"
  shows "g1 \<noteq> [] \<and> CHR '':'' \<notin> set g1 \<and> g2 \<noteq> [] \<and> list_all is_word g2 \<and>
         (\<exists>post. s = ''FAXDONE:'' @ g1 @ '':'' @ g2 @ post)"
proof -
  let ?r = "drop 8 s"
  from assms have p: "take 8 s = ''FAXDONE:''"
    by (simp add: match_here_def split: if_splits)
  from assms p have g1: "g1 = takeWhile (\<lambda>c. c \<noteq> CHR '':'') ?r" and n1: "g1 \<noteq> []"
    by (auto simp: match_here_def Let_def split: if_splits list.splits)
  from assms p obtain c r2 where d: "dropWhile (\<lambda>c. c \<noteq> CHR '':'') ?r = c # r2"
    and g2: "g2 = takeWhile is_word r2" and n2: "g2 \<noteq> []"
    by (auto simp: match_here_def Let_def split: if_splits list.splits)
  have c: "c = CHR '':''"
    using hd_dropWhile [of "\<lambda>c. c \<noteq> CHR '':''" ?r] d by simp
  have "?r = g1 @ c # r2"
    using takeWhile_dropWhile_id [of "\<lambda>c. c \<noteq> CHR '':''" ?r] d g1 by simp
  moreover have "r2 = g2 @ dropWhile is_word r2"
    using g2 by simp
  moreover have "s = take 8 s @ ?r" by simp
  ultimately have "s = ''FAXDONE:'' @ g1 @ '':'' @ g2 @ dropWhile is_word r2"
    using p c by (metis append_Cons append_Nil)
  moreover have "CHR '':'' \<notin> set g1"
    using g1 set_takeWhileD by fastforce
  moreover have "list_all is_word g2"
    unfolding g2 list_all_iff using set_takeWhileD by fastforce
  ultimately show ?thesis using n1 n2 by blast
qed

lemma subject_match_groups:
  "subject_match s = Some (g1, g2) \<Longrightarrow>
     g1 \<noteq> [] \<and> CHR '':'' \<notin> set g1 \<and> g2 \<noteq> [] \<and> list_all is_word g2 \<and>
     (\<exists>pre post. s = pre @ ''FAXDONE:'' @ g1 @ '':'' @ g2 @ post)"
proof (induction s)
  case Nil
  then show ?case by simp
next
  case (Cons c cs)
  show ?case
  proof (cases "match_here (c # cs)")
    case None
    with Cons.prems have "subject_match cs = Some (g1, g2)" by simp
    from Cons.IH [OF this] obtain pre post where
      g: "g1 \<noteq> [] \<and> CHR '':'' \<notin> set g1 \<and> g2 \<noteq> [] \<and> list_all is_word g2"
      and cs: "cs = pre @ ''FAXDONE:'' @ g1 @ '':'' @ g2 @ post"
      by blast
    from cs have "c # cs = (c # pre) @ ''FAXDONE:'' @ g1 @ '':'' @ g2 @ post" by simp
    with g show ?thesis by blast
  next
    case (Some g)
    with Cons.prems have "match_here (c # cs) = Some (g1, g2)" by simp
    from match_here_groups [OF this] show ?thesis
      by (metis append_Nil)
  qed
qed

text \<open>A subject that is exactly \<open>FAXDONE:K:S\<close> yields the groups \<open>K\<close> and \<open>S\<close>.\<close>

lemma takeWhile_upto: "x \<notin> set a \<Longrightarrow> takeWhile (\<lambda>c. c \<noteq> x) (a @ x # b) = a"
  by (induction a) auto

lemma dropWhile_upto: "x \<notin> set a \<Longrightarrow> dropWhile (\<lambda>c. c \<noteq> x) (a @ x # b) = x # b"
  by (induction a) auto

lemma takeWhile_all: "list_all P a \<Longrightarrow> takeWhile P a = a"
  by (induction a) auto

lemma subject_match_exact:
  assumes "K \<noteq> []" and "CHR '':'' \<notin> set K" and "S \<noteq> []" and "list_all is_word S"
  shows "subject_match (''FAXDONE:'' @ K @ '':'' @ S) = Some (K, S)"
proof -
  have "match_here (''FAXDONE:'' @ K @ '':'' @ S) = Some (K, S)"
    using assms
    by (simp add: match_here_def takeWhile_upto dropWhile_upto takeWhile_all)
  then show ?thesis by simp
qed

lemma split_on_none: "sep \<notin> set a \<Longrightarrow> split_on sep a = [a]"
  by (induction a) auto



lemma parseMessage_status:
  assumes "parseMessage m = Some p"
  shows "p_status p \<noteq> [] \<and> list_all is_word (p_status p)"
proof -
  from assms obtain g1 g2 where sm: "subject_match (subject m) = Some (g1, g2)"
    and st: "p_status p = trim g2"
    by (auto simp: parseMessage_def Let_def split: option.splits)
  from subject_match_groups [OF sm] have "g2 \<noteq> []" and w: "list_all is_word g2" by simp_all
  then show ?thesis by (simp add: st trim_words [OF w])
qed

section \<open>Document paths\<close>

lemma no_double_slash: "CHR ''/'' \<notin> set k \<Longrightarrow> \<not> has_double_slash k"
  by (induction k rule: has_double_slash.induct) auto

text \<open>A non-empty id without \<open>/\<close> is a valid document path.\<close>

lemma plain_id_valid:
  assumes "k \<noteq> []" and "CHR ''/'' \<notin> set k"
  shows "doc_path_error k = None"
  using assms
  by (simp add: doc_path_error_def no_double_slash segments_def split_on_none)

lemma pad_digits_no_slash: "CHR ''/'' \<notin> set (pad_digits k n)"
  using pad_digits_all_digits [of k n] by (auto simp: list_all_iff is_digit_def)

lemma toISOString_no_slash: "CHR ''/'' \<notin> set (toISOString d)"
  by (simp add: toISOString_def iso_year_def pad_digits_no_slash del: pad_digits.simps)

text \<open>So is every tracking id: the write of the pending document never fails on its
  path, and \<open>job_ref_error\<close> at a tracking id is what the environment says.\<close>

lemma newTrackingId_valid_path: "doc_path_error (newTrackingId d) = None"
proof (rule plain_id_valid)
  show "newTrackingId d \<noteq> []" by (simp add: newTrackingId_def)
  have "set (take 14 (strip_separators (toISOString d))) \<subseteq> set (toISOString d)"
    using set_take_subset [of 14 "strip_separators (toISOString d)"]
    by (auto simp: strip_separators_def)
  with toISOString_no_slash [of d] show "CHR ''/'' \<notin> set (newTrackingId d)"
    by (auto simp: newTrackingId_def)
qed

lemma job_ref_error_newTrackingId:
  "job_ref_error e (newTrackingId d) = faxJobs_set_error e (newTrackingId d)"
  by (simp add: job_ref_error_def newTrackingId_valid_path)

section \<open>Merge-writes\<close>

lemma field_set_merge:
  "field (set_merge c k d) k' f =
     (if k' = k then (case d f of Some v \<Rightarrow> Some v | None \<Rightarrow> field c k f)
      else field c k' f)"
  by (simp add: field_def set_merge_def map_add_def split: option.splits)

lemma set_merge_twice: "set_merge (set_merge c k d1) k d2 = set_merge c k (d1 ++ d2)"
  by (simp add: set_merge_def split: option.splits)

lemma set_merge_commute:
  "k \<noteq> k' \<Longrightarrow> set_merge (set_merge c k d) k' d' = set_merge (set_merge c k' d') k d"
  by (simp add: set_merge_def fun_upd_twist)

lemma map_add_absorb: "dom a \<subseteq> dom b \<Longrightarrow> a ++ b = b"
proof (rule ext)
  fix x
  assume s: "dom a \<subseteq> dom b"
  show "(a ++ b) x = b x"
  proof (cases "b x")
    case None
    then have "a x = None" using s by (auto simp: dom_def)
    with None show ?thesis by (simp add: map_add_def)
  next
    case (Some v)
    then show ?thesis by (simp add: map_add_def)
  qed
qed

lemma dom_keyUpdate:
  "dom (keyUpdate e p) = {''faxKey'', ''status'', ''requesterEmail'', ''updatedAt''}"
  by (auto simp: keyUpdate_def dom_def split: if_splits)

lemma dom_trackingUpdate:
  "dom (trackingUpdate e p) =
     {''faxKey'', ''trackingId'', ''status'', ''requesterEmail'', ''updatedAt''}"
  by (auto simp: trackingUpdate_def dom_def split: if_splits)

lemma keyUpdate_absorb: "keyUpdate e1 p ++ keyUpdate e2 p = keyUpdate e2 p"
  by (rule map_add_absorb) (simp add: dom_keyUpdate)

lemma trackingUpdate_absorb: "trackingUpdate e1 p ++ trackingUpdate e2 p = trackingUpdate e2 p"
  by (rule map_add_absorb) (simp add: dom_trackingUpdate)

lemma key_tracking_absorb: "keyUpdate e1 p ++ trackingUpdate e2 p = trackingUpdate e2 p"
  by (rule map_add_absorb) (auto simp: dom_keyUpdate dom_trackingUpdate)

lemma tracking_key_tracking_absorb:
  "(trackingUpdate e1 p ++ keyUpdate e2 p) ++ trackingUpdate e3 p = trackingUpdate e3 p"
  by (rule map_add_absorb) (auto simp: dom_keyUpdate dom_trackingUpdate)

lemma faxJobs_merge_job: "faxJobs (merge_job k d w) = set_merge (faxJobs w) k d"
  by (simp add: merge_job_def)

lemma faxJobs_applyParsed: "faxJobs (applyParsed e p w) = written e p (faxJobs w)"
  by (auto simp: applyParsed_def written_def Let_def faxJobs_merge_job split: option.splits)

lemma faxJobs_processMessage:
  "faxJobs (processMessage e m w) =
     (case parseMessage m of None \<Rightarrow> faxJobs w | Some p \<Rightarrow> written e p (faxJobs w))"
  by (simp add: processMessage_def faxJobs_applyParsed split: option.splits)

lemma keyUpdate_apply:
  "keyUpdate e p ''status'' = Some (FStr (p_status p))"
  "keyUpdate e p ''faxKey'' = Some (FStr (p_faxKey p))"
  "keyUpdate e p ''requesterEmail'' = Some (FStr (p_requesterEmail p))"
  "keyUpdate e p ''trackingId'' = None"
  by (simp_all add: keyUpdate_def)

lemma trackingUpdate_apply:
  "trackingUpdate e p ''status'' = Some (FStr (p_status p))"
  "trackingUpdate e p ''faxKey'' = Some (FStr (p_faxKey p))"
  "trackingUpdate e p ''requesterEmail'' = Some (FStr (p_requesterEmail p))"
  "trackingUpdate e p ''trackingId'' = Some (FStr (p_trackingId p))"
  by (simp_all add: trackingUpdate_def)


lemma updates_same_but_time:
  "f \<noteq> ''updatedAt'' \<Longrightarrow>
     keyUpdate e1 p f = keyUpdate e2 p f \<and> trackingUpdate e1 p f = trackingUpdate e2 p f"
  by (simp add: keyUpdate_def trackingUpdate_def)


lemma field_written_faxKey:
  assumes "job_ref_error e (p_faxKey p) = None" and "f \<in> dom (keyUpdate e p)"
  shows "field (written e p c) (p_faxKey p) f = trackingUpdate e p f"
  using assms
  by (auto simp: written_def field_set_merge keyUpdate_def trackingUpdate_def dom_def
      split: option.splits if_splits)



lemma written_replay:
  assumes "faxJobs_set_error e1 = faxJobs_set_error e2"
  shows "written e2 p (written e1 p c) = written e2 p c"
proof -
  have r: "job_ref_error e1 = job_ref_error e2"
    by (rule ext) (simp add: job_ref_error_def assms split: option.splits)
  show ?thesis
  proof (cases "p_faxKey p = p_trackingId p")
    case True
    then show ?thesis
      by (simp add: written_def r set_merge_twice keyUpdate_absorb trackingUpdate_absorb
          key_tracking_absorb tracking_key_tracking_absorb map_add_assoc)
  next
    case False
    have "set_merge (set_merge (set_merge (set_merge c (p_faxKey p) (keyUpdate e1 p))
            (p_trackingId p) (trackingUpdate e1 p)) (p_faxKey p) (keyUpdate e2 p))
            (p_trackingId p) (trackingUpdate e2 p)
          = set_merge (set_merge c (p_faxKey p) (keyUpdate e2 p))
              (p_trackingId p) (trackingUpdate e2 p)"
      using False
      by (simp add: set_merge_commute [of "p_trackingId p" "p_faxKey p"] set_merge_twice
          keyUpdate_absorb trackingUpdate_absorb)
    then show ?thesis
      by (simp add: written_def r set_merge_twice keyUpdate_absorb)
  qed
qed

section \<open>Status reconciliation\<close>


lemma processed_key_field:
  assumes "parseMessage m = Some p" and "job_ref_error e (p_faxKey p) = None"
    and "f \<in> dom (keyUpdate e p)"
  shows "field (faxJobs (processMessage e m w)) (p_faxKey p) f = trackingUpdate e p f"
  using field_written_faxKey [OF assms(2,3)]
  by (simp add: faxJobs_processMessage assms(1))

lemma doneMsg_parsed: "parseMessage doneMsg = Some doneParsed"
  by code_simp


lemma bogusMsg_parsed: "parseMessage bogusMsg = Some (doneParsed\<lparr>p_status := ''Bogus''\<rparr>)"
  by code_simp


lemma env0_refs:
  "job_ref_error env0 ''K1'' = None \<and> job_ref_error env0 ''WEB-20260205125013'' = None"
  by (simp add: job_ref_error_def env0_def legal_ids)

lemma envLater_refs:
  "job_ref_error envLater ''K1'' = None \<and>
   job_ref_error envLater ''WEB-20260205125013'' = None"
  by (simp add: job_ref_error_def envLater_def env0_def legal_ids)







section \<open>What a polled message writes\<close>





section \<open>Replaying a message\<close>

lemma updates_time:
  "keyUpdate e p ''updatedAt'' = Some (FTime (server_time e))"
  "trackingUpdate e p ''updatedAt'' = Some (FTime (server_time e))"
  by (simp_all add: keyUpdate_def trackingUpdate_def)

lemma field_written_but_time:
  assumes "faxJobs_set_error e1 = faxJobs_set_error e2" and "f \<noteq> ''updatedAt''"
  shows "field (written e2 p c) k f = field (written e1 p c) k f"
proof -
  have r: "job_ref_error e1 = job_ref_error e2"
    by (rule ext) (simp add: job_ref_error_def assms(1) split: option.splits)
  have u: "keyUpdate e1 p f = keyUpdate e2 p f" "trackingUpdate e1 p f = trackingUpdate e2 p f"
    using updates_same_but_time [OF assms(2), of e1 p e2] by simp_all
  show ?thesis
    by (auto simp add: written_def r field_set_merge u split: option.splits)
qed

lemma written_same_time:
  assumes "faxJobs_set_error e1 = faxJobs_set_error e2" and "server_time e1 = server_time e2"
  shows "written e2 p c = written e1 p c"
proof -
  have r: "job_ref_error e1 = job_ref_error e2"
    by (rule ext) (simp add: job_ref_error_def assms(1) split: option.splits)
  have "keyUpdate e1 p = keyUpdate e2 p" "trackingUpdate e1 p = trackingUpdate e2 p"
    using assms(2) by (simp_all add: keyUpdate_def trackingUpdate_def)
  then show ?thesis by (simp add: written_def r)
qed

text \<open>
  Claim C5, as the code has it. Processing the same message a second time gives the job
  collection that processing it once at the time of the replay gives: compared with the
  state after the first processing, every field of every record is the same except
  \<open>updatedAt\<close>, which each write sets to the server time; when the server time has not
  moved, the collection is the same. The store is assumed to accept the same ids both
  times.
\<close>

theorem polled_replay_changes_only_updatedAt:
  assumes "faxJobs_set_error e1 = faxJobs_set_error e2"
  shows "faxJobs (processMessage e2 m (processMessage e1 m w)) = faxJobs (processMessage e2 m w) \<and>
         (\<forall>k f. f \<noteq> ''updatedAt'' \<longrightarrow>
            field (faxJobs (processMessage e2 m (processMessage e1 m w))) k f
              = field (faxJobs (processMessage e1 m w)) k f) \<and>
         (server_time e1 = server_time e2 \<longrightarrow>
            faxJobs (processMessage e2 m (processMessage e1 m w))
              = faxJobs (processMessage e1 m w))"
proof (cases "parseMessage m")
  case None
  then show ?thesis by (simp add: faxJobs_processMessage)
next
  case (Some p)
  have a: "faxJobs (processMessage e2 m (processMessage e1 m w)) = written e2 p (faxJobs w)"
    by (simp add: faxJobs_processMessage Some written_replay [OF assms])
  have b: "faxJobs (processMessage e1 m w) = written e1 p (faxJobs w)"
    and c: "faxJobs (processMessage e2 m w) = written e2 p (faxJobs w)"
    by (simp_all add: faxJobs_processMessage Some)
  show ?thesis
    using field_written_but_time [OF assms] written_same_time [OF assms]
    by (simp add: a b c)
qed

lemma same_oracle: "faxJobs_set_error env0 = faxJobs_set_error envLater"
  by (simp add: envLater_def)

lemma doneMsg_time:
  "field (faxJobs (processMessage env0 doneMsg w)) ''K1'' ''updatedAt'' = Some (FTime 1) \<and>
   field (faxJobs (processMessage envLater doneMsg w)) ''K1'' ''updatedAt'' = Some (FTime 2)"
  using processed_key_field [OF doneMsg_parsed, of env0 "''updatedAt''" w]
    processed_key_field [OF doneMsg_parsed, of envLater "''updatedAt''" w]
    env0_refs envLater_refs
  by (simp add: doneParsed_def dom_keyUpdate updates_time env0_def envLater_def)

theorem polled_replay_changes_only_updatedAt_witness:
  "faxJobs_set_error env0 = faxJobs_set_error envLater \<and>
   faxJobs (processMessage envLater doneMsg (processMessage env0 doneMsg world0))
     = faxJobs (processMessage envLater doneMsg world0) \<and>
   field (faxJobs (processMessage envLater doneMsg (processMessage env0 doneMsg world0)))
     ''K1'' ''status'' = field (faxJobs (processMessage env0 doneMsg world0)) ''K1'' ''status''"
proof -
  note inst = polled_replay_changes_only_updatedAt [OF same_oracle, of doneMsg world0]
  from inst have a: "faxJobs (processMessage envLater doneMsg (processMessage env0 doneMsg world0))
     = faxJobs (processMessage envLater doneMsg world0)" by (rule conjunct1)
  from inst have "\<forall>k f. f \<noteq> ''updatedAt'' \<longrightarrow>
      field (faxJobs (processMessage envLater doneMsg (processMessage env0 doneMsg world0))) k f
        = field (faxJobs (processMessage env0 doneMsg world0)) k f"
    by (rule conjunct2 [THEN conjunct1])
  then have b: "field (faxJobs (processMessage envLater doneMsg
      (processMessage env0 doneMsg world0))) ''K1'' ''status''
        = field (faxJobs (processMessage env0 doneMsg world0)) ''K1'' ''status''"
    by simp
  from same_oracle a b show ?thesis by (intro conjI)
qed

text \<open>
  The claim as stated fails once the server time has moved between the two
  processings: the replay leaves a later \<open>updatedAt\<close>, so the final state is not the
  state after the first processing.
\<close>

theorem polled_replay_moves_updatedAt:
  "field (faxJobs (processMessage env0 doneMsg world0)) ''K1'' ''updatedAt''
     = Some (FTime 1) \<and>
   field (faxJobs (processMessage envLater doneMsg (processMessage env0 doneMsg world0)))
     ''K1'' ''updatedAt'' = Some (FTime 2) \<and>
   faxJobs (processMessage envLater doneMsg (processMessage env0 doneMsg world0))
     \<noteq> faxJobs (processMessage env0 doneMsg world0)"
proof -
  have a: "field (faxJobs (processMessage env0 doneMsg world0)) ''K1'' ''updatedAt''
     = Some (FTime 1)"
    using doneMsg_time by simp
  have b: "field (faxJobs (processMessage envLater doneMsg (processMessage env0 doneMsg world0)))
     ''K1'' ''updatedAt'' = Some (FTime 2)"
    using doneMsg_time by simp
  have "faxJobs (processMessage envLater doneMsg (processMessage env0 doneMsg world0))
     \<noteq> faxJobs (processMessage env0 doneMsg world0)"
  proof
    assume "faxJobs (processMessage envLater doneMsg (processMessage env0 doneMsg world0))
      = faxJobs (processMessage env0 doneMsg world0)"
    with b have "field (faxJobs (processMessage env0 doneMsg world0)) ''K1'' ''updatedAt''
      = Some (FTime 2)" by simp
    with a show False by simp
  qed
  with a b show ?thesis by (intro conjI)
qed

section \<open>The requester address and the stored status values\<close>




text \<open>The webhook update of the specification does not name \<open>requesterEmail\<close>.\<close>

lemma webhook_keeps_requesterEmail:
  "field (faxJobs (applyWebhookUpdate e t st fk w)) k ''requesterEmail''
     = field (faxJobs w) k ''requesterEmail''"
  by (cases fk)
    (simp_all add: applyWebhookUpdate_def faxJobs_merge_job field_set_merge
      split: option.splits)





lemma pending_is_word: "list_all is_word ''Pending''"
  by code_simp

lemma word_status_pending:
  "word_status (pendingStoreJob e t sn) \<and> word_status (pendingDirectJob e t n)"
  using pending_is_word
  by (simp add: word_status_def pendingStoreJob_status pendingDirectJob_status)

lemma written_status:
  assumes "written e p c k = Some d"
  shows "c k = Some d \<or> d ''status'' = Some (FStr (p_status p))"
  using assms
  by (auto simp: written_def set_merge_def keyUpdate_apply trackingUpdate_apply map_add_def
      split: if_splits option.splits)

lemma cad_jobs_cases:
  assumes "faxJobs (snd (createAndDispatch e t job m entry ok w)) k = Some d"
  shows "faxJobs w k = Some d \<or> d = job"
  using assms by (auto simp: cad_faxJobs split: option.splits if_splits)

lemma sendFax_jobs_cases:
  assumes "faxJobs (snd (sendFax e req w)) k = Some d"
  shows "faxJobs w k = Some d \<or>
         d = pendingStoreJob e (newTrackingId (clock e)) (str_of (storeNumber req))"
proof (cases "valid_store_request e req w")
  case True
  then obtain store where st: "stores w (str_of (storeNumber req)) = Some store"
    by (auto simp: valid_store_request_def)
  from assms cad_jobs_cases show ?thesis
    unfolding sendFax_valid [OF True st] by blast
next
  case False
  from sendFax_invalid [OF False] assms show ?thesis by simp
qed

lemma sendFaxDirect_jobs_cases:
  assumes "faxJobs (snd (sendFaxDirect e req w)) k = Some d"
  shows "faxJobs w k = Some d \<or>
         d = pendingDirectJob e (newTrackingId (clock e)) (cleanFaxNumber req)"
proof (cases "valid_direct_request e req")
  case True
  from assms cad_jobs_cases show ?thesis
    unfolding sendFaxDirect_valid [OF True] by blast
next
  case False
  from sendFaxDirect_invalid [OF False] assms show ?thesis by simp
qed

lemma processMessage_word_status:
  assumes "\<forall>k d. faxJobs w k = Some d \<longrightarrow> word_status d"
  shows "\<forall>k d. faxJobs (processMessage e m w) k = Some d \<longrightarrow> word_status d"
proof (cases "parseMessage m")
  case None
  with assms show ?thesis by (simp add: faxJobs_processMessage)
next
  case (Some p)
  show ?thesis
  proof (intro allI impI)
    fix k d
    assume "faxJobs (processMessage e m w) k = Some d"
    then have "written e p (faxJobs w) k = Some d"
      by (simp add: faxJobs_processMessage Some)
    from written_status [OF this] show "word_status d"
    proof
      assume "faxJobs w k = Some d"
      with assms show ?thesis by blast
    next
      assume "d ''status'' = Some (FStr (p_status p))"
      with parseMessage_status [OF Some] show ?thesis
        by (simp add: word_status_def)
    qed
  qed
qed

lemma monitorFaxStatus_word_status:
  "\<forall>k d. faxJobs w k = Some d \<longrightarrow> word_status d \<Longrightarrow>
   \<forall>k d. faxJobs (monitorFaxStatus e ms w) k = Some d \<longrightarrow> word_status d"
proof (induction ms arbitrary: w)
  case Nil
  then show ?case by (simp add: monitorFaxStatus_def)
next
  case (Cons m ms)
  from Cons.IH [OF processMessage_word_status [OF Cons.prems, of e m]]
  show ?case by (simp add: monitorFaxStatus_def)
qed

text \<open>
  Claim C9, as the code has it. The status of every job document is a non-empty string
  of word characters: creation stores \<open>Pending\<close>, and a polled update stores the status
  group of the subject, any match of \<open>\w+\<close>, without comparing it with the three values.
  The property is kept by both send functions, by one polled message and by a sweep.
\<close>

theorem stored_status_is_word:
  assumes "\<forall>k d. faxJobs w k = Some d \<longrightarrow> word_status d"
  shows "(\<forall>k d. faxJobs (snd (sendFax e req w)) k = Some d \<longrightarrow> word_status d) \<and>
         (\<forall>k d. faxJobs (snd (sendFaxDirect e req w)) k = Some d \<longrightarrow> word_status d) \<and>
         (\<forall>k d. faxJobs (processMessage e m w) k = Some d \<longrightarrow> word_status d) \<and>
         (\<forall>k d. faxJobs (monitorFaxStatus e ms w) k = Some d \<longrightarrow> word_status d) \<and>
         (\<forall>p. parseMessage m = Some p \<and> job_ref_error e (p_faxKey p) = None \<longrightarrow>
            field (faxJobs (processMessage e m w)) (p_faxKey p) ''status''
              = Some (FStr (p_status p)))"
proof (intro conjI)
  show "\<forall>k d. faxJobs (snd (sendFax e req w)) k = Some d \<longrightarrow> word_status d"
    using sendFax_jobs_cases assms word_status_pending by blast
  show "\<forall>k d. faxJobs (snd (sendFaxDirect e req w)) k = Some d \<longrightarrow> word_status d"
    using sendFaxDirect_jobs_cases assms word_status_pending by blast
  show "\<forall>k d. faxJobs (processMessage e m w) k = Some d \<longrightarrow> word_status d"
    by (rule processMessage_word_status [OF assms])
  show "\<forall>k d. faxJobs (monitorFaxStatus e ms w) k = Some d \<longrightarrow> word_status d"
    by (rule monitorFaxStatus_word_status [OF assms])
  show "\<forall>p. parseMessage m = Some p \<and> job_ref_error e (p_faxKey p) = None \<longrightarrow>
            field (faxJobs (processMessage e m w)) (p_faxKey p) ''status''
              = Some (FStr (p_status p))"
  proof (intro allI impI)
    fix p
    assume h: "parseMessage m = Some p \<and> job_ref_error e (p_faxKey p) = None"
    then have pm: "parseMessage m = Some p" and r: "job_ref_error e (p_faxKey p) = None"
      by simp_all
    from processed_key_field [OF pm r, of "''status''" w]
    show "field (faxJobs (processMessage e m w)) (p_faxKey p) ''status''
              = Some (FStr (p_status p))"
      by (simp add: dom_keyUpdate trackingUpdate_apply)
  qed
qed

lemma bogus_status:
  "field (faxJobs (processMessage env0 bogusMsg w)) ''K1'' ''status'' = Some (FStr ''Bogus'')"
  using processed_key_field [OF bogusMsg_parsed, of env0 "''status''" w] env0_refs
  by (simp add: doneParsed_def dom_keyUpdate trackingUpdate_apply)

theorem stored_status_is_word_witness:
  "faxJobs world0 = Map.empty \<and>
   (case faxJobs (processMessage env0 bogusMsg world0) ''K1'' of
      None \<Rightarrow> False | Some d \<Rightarrow> word_status d) \<and>
   field (faxJobs (processMessage env0 bogusMsg world0)) ''K1'' ''status''
     = Some (FStr ''Bogus'')"
proof -
  have e: "faxJobs world0 = Map.empty" by (simp add: world0_def)
  then have h: "\<forall>k d. faxJobs world0 k = Some d \<longrightarrow> word_status d" by simp
  note inst = stored_status_is_word [OF h, of env0 _ bogusMsg]
  from bogus_status [of world0] obtain d where
    d: "faxJobs (processMessage env0 bogusMsg world0) ''K1'' = Some d"
    by (auto simp: field_def split: option.splits)
  with inst have "word_status d" by blast
  with d have "case faxJobs (processMessage env0 bogusMsg world0) ''K1'' of
      None \<Rightarrow> False | Some d \<Rightarrow> word_status d" by simp
  with e bogus_status [of world0] show ?thesis by (intro conjI)
qed

text \<open>
  The claim as stated fails: the subject \<open>FAXDONE:K1:Bogus\<close> stores the status \<open>Bogus\<close>,
  which is none of Pending, Success and Failed.
\<close>

theorem polled_update_stores_any_status:
  "field (faxJobs (processMessage env0 bogusMsg world0)) ''K1'' ''status''
     = Some (FStr ''Bogus'') \<and>
   FStr ''Bogus'' \<notin> {FStr ''Pending'', FStr ''Success'', FStr ''Failed''}"
  by (simp add: bogus_status)

end
